theory Spec2Isabelle
  imports Complex_Main
begin

section \<open>JavaScript values used by the two classes\<close>

text \<open>
  The token fields of \<^verbatim>\<open>iRacingAuthManager\<close> hold a string, \<^verbatim>\<open>null\<close> or
  \<^verbatim>\<open>undefined\<close>; \<open>None\<close> stands for both \<^verbatim>\<open>null\<close> and \<^verbatim>\<open>undefined\<close>.
  A string is falsy exactly when it is empty. The expiry holds a number, \<^verbatim>\<open>null\<close> or
  \<^verbatim>\<open>NaN\<close> (from \<^verbatim>\<open>undefined * 1000\<close>); \<open>None\<close> stands for \<^verbatim>\<open>null\<close> and
  \<^verbatim>\<open>NaN\<close>, and a number is falsy exactly when it is \<open>0\<close>. Times are integer milliseconds,
  as \<^verbatim>\<open>Date.now()\<close> returns them.
\<close>

definition truthy_str :: "string option \<Rightarrow> bool" where
  "truthy_str v = (case v of None \<Rightarrow> False | Some s \<Rightarrow> s \<noteq> [])"

text \<open>The \<^verbatim>\<open>a || b\<close> of JavaScript on strings: the first operand when it is truthy.\<close>

definition or_str :: "string option \<Rightarrow> string option \<Rightarrow> string option" where
  "or_str a b = (if truthy_str a then a else b)"

text \<open>
  An \<^verbatim>\<open>Error\<close> object: its message and the two properties that
  \<^verbatim>\<open>makeHttpsRequest\<close> attaches to it. \<^verbatim>\<open>new Error(msg)\<close> leaves both undefined.
\<close>

record js_error =
  message :: string
  statusCode :: "nat option"
  retryAfter :: "string option"

definition Error :: "string \<Rightarrow> js_error" where
  "Error msg = \<lparr>message = msg, statusCode = None, retryAfter = None\<rparr>"

text \<open>A template literal prints an integer status code in decimal.\<close>

definition digit_char :: "nat \<Rightarrow> char" where
  "digit_char d = ''0123456789'' ! d"

function show_nat :: "nat \<Rightarrow> string" where
  "show_nat n = (if n < 10 then [digit_char n] else show_nat (n div 10) @ [digit_char (n mod 10)])"
  by pat_completeness auto
termination
  by (relation "measure (\<lambda>n. n)") auto

declare show_nat.simps [simp del]

text \<open>
  JavaScript numbers, as far as the retry code meets them. A finite value is kept exactly, as a
  rational: the rounding of binary floating point (and its overflow to \<^verbatim>\<open>Infinity\<close>) is
  not modelled.
\<close>

datatype js_number = Finite rat | PlusInfinity | MinusInfinity | NotANumber

text \<open>
  \<^verbatim>\<open>retryAfter * 1000\<close> converts the header string to a number first. This is the
  conversion of the language (the grammar of string numeric literals): blanks around the text
  are dropped; the empty text is \<open>0\<close>; \<^verbatim>\<open>0x\<close>, \<^verbatim>\<open>0o\<close> and \<^verbatim>\<open>0b\<close>
  introduce an unsigned integer in base 16, 8 and 2; otherwise the text is an optional sign
  followed by \<^verbatim>\<open>Infinity\<close> or by decimal digits with an optional fraction and an
  optional exponent; every other text is \<^verbatim>\<open>NaN\<close>. A character is a code unit below
  256, as the HTTP parser of Node delivers header text.
\<close>

definition is_digit :: "char \<Rightarrow> bool" where
  "is_digit c = (c \<in> set ''0123456789'')"

definition is_white :: "char \<Rightarrow> bool" where
  "is_white c = (c \<in> {CHR 0x09, CHR 0x0A, CHR 0x0B, CHR 0x0C, CHR 0x0D, CHR 0x20, CHR 0xA0})"

definition trim :: "string \<Rightarrow> string" where
  "trim s = rev (dropWhile is_white (rev (dropWhile is_white s)))"

definition digit_val :: "char \<Rightarrow> nat option" where
  "digit_val c = map_of
     [(CHR ''0'', 0), (CHR ''1'', 1), (CHR ''2'', 2), (CHR ''3'', 3), (CHR ''4'', 4),
      (CHR ''5'', 5), (CHR ''6'', 6), (CHR ''7'', 7), (CHR ''8'', 8), (CHR ''9'', 9)] c"

definition hex_val :: "char \<Rightarrow> nat option" where
  "hex_val c = map_of
     [(CHR ''0'', 0), (CHR ''1'', 1), (CHR ''2'', 2), (CHR ''3'', 3), (CHR ''4'', 4),
      (CHR ''5'', 5), (CHR ''6'', 6), (CHR ''7'', 7), (CHR ''8'', 8), (CHR ''9'', 9),
      (CHR ''a'', 10), (CHR ''b'', 11), (CHR ''c'', 12), (CHR ''d'', 13), (CHR ''e'', 14),
      (CHR ''f'', 15), (CHR ''A'', 10), (CHR ''B'', 11), (CHR ''C'', 12), (CHR ''D'', 13),
      (CHR ''E'', 14), (CHR ''F'', 15)] c"

text \<open>The value of a run of decimal digits, and of a run of digits in another base.\<close>

fun to_number_acc :: "nat \<Rightarrow> string \<Rightarrow> nat option" where
  "to_number_acc acc [] = Some acc"
| "to_number_acc acc (c # cs) =
     (case digit_val c of None \<Rightarrow> None | Some d \<Rightarrow> to_number_acc (10 * acc + d) cs)"

fun radix_acc :: "nat \<Rightarrow> nat \<Rightarrow> string \<Rightarrow> nat option" where
  "radix_acc base acc [] = Some acc"
| "radix_acc base acc (c # cs) =
     (case hex_val c of
        None \<Rightarrow> None
      | Some d \<Rightarrow> if d < base then radix_acc base (base * acc + d) cs else None)"

definition radix_literal :: "string \<Rightarrow> nat option" where
  "radix_literal t =
     (case t of
        a # b # ds \<Rightarrow>
          if a = CHR ''0'' \<and> ds \<noteq> [] then
            (if b = CHR ''x'' \<or> b = CHR ''X'' then radix_acc 16 0 ds
             else if b = CHR ''o'' \<or> b = CHR ''O'' then radix_acc 8 0 ds
             else if b = CHR ''b'' \<or> b = CHR ''B'' then radix_acc 2 0 ds
             else None)
          else None
      | _ \<Rightarrow> None)"

text \<open>The exponent part: nothing, or \<^verbatim>\<open>e\<close> or \<^verbatim>\<open>E\<close>, an optional sign and digits.\<close>

definition signed_digits :: "int \<Rightarrow> string \<Rightarrow> int option" where
  "signed_digits sg ds =
     (if ds = [] then None else map_option (\<lambda>n. sg * int n) (to_number_acc 0 ds))"

definition exponent_part :: "string \<Rightarrow> int option" where
  "exponent_part r =
     (case r of
        [] \<Rightarrow> Some 0
      | c # cs \<Rightarrow>
          if c = CHR ''e'' \<or> c = CHR ''E'' then
            (case cs of
               [] \<Rightarrow> None
             | d # ds \<Rightarrow>
                 if d = CHR ''+'' then signed_digits 1 ds
                 else if d = CHR ''-'' then signed_digits (- 1) ds
                 else signed_digits 1 cs)
          else None)"

definition scale :: "nat \<Rightarrow> int \<Rightarrow> rat" where
  "scale m e = (if 0 \<le> e then of_nat m * 10 ^ nat e else of_nat m / 10 ^ nat (- e))"

definition unsigned_decimal :: "string \<Rightarrow> js_number" where
  "unsigned_decimal t =
     (if t = ''Infinity'' then PlusInfinity
      else
        let ip = takeWhile is_digit t;
            r = dropWhile is_digit t;
            fp = (case r of
                    [] \<Rightarrow> []
                  | c # cs \<Rightarrow> if c = CHR ''.'' then takeWhile is_digit cs else []);
            r' = (case r of
                    [] \<Rightarrow> []
                  | c # cs \<Rightarrow> if c = CHR ''.'' then dropWhile is_digit cs else r)
        in if ip = [] \<and> fp = [] then NotANumber
           else
             (case to_number_acc 0 (ip @ fp) of
                None \<Rightarrow> NotANumber
              | Some m \<Rightarrow>
                  (case exponent_part r' of
                     None \<Rightarrow> NotANumber
                   | Some e \<Rightarrow> Finite (scale m (e - int (length fp))))))"

definition negate :: "js_number \<Rightarrow> js_number" where
  "negate x =
     (case x of
        Finite q \<Rightarrow> Finite (- q)
      | PlusInfinity \<Rightarrow> MinusInfinity
      | MinusInfinity \<Rightarrow> PlusInfinity
      | NotANumber \<Rightarrow> NotANumber)"

definition to_number :: "string \<Rightarrow> js_number" where
  "to_number s =
     (let t = trim s in
      case t of
        [] \<Rightarrow> Finite 0
      | c # cs \<Rightarrow>
          (case radix_literal t of
             Some n \<Rightarrow> Finite (of_nat n)
           | None \<Rightarrow>
               if c = CHR ''+'' then unsigned_decimal cs
               else if c = CHR ''-'' then negate (unsigned_decimal cs)
               else unsigned_decimal t))"

text \<open>
  The argument of \<^verbatim>\<open>sleep\<close>: a number of milliseconds, an infinity (\<open>True\<close> for the
  positive one) or \<^verbatim>\<open>NaN\<close>; and the product \<^verbatim>\<open>x * 1000\<close> that computes it.
\<close>

datatype millis = Millis rat | Unbounded bool | NaN

definition times_1000 :: "js_number \<Rightarrow> millis" where
  "times_1000 x =
     (case x of
        Finite q \<Rightarrow> Millis (q * 1000)
      | PlusInfinity \<Rightarrow> Unbounded True
      | MinusInfinity \<Rightarrow> Unbounded False
      | NotANumber \<Rightarrow> NaN)"

section \<open>The network, the clock and the observable trace\<close>

text \<open>
  A decoded JSON value (the payload of the data endpoint), and what \<^verbatim>\<open>JSON.parse\<close>
  returns for a body of the token endpoint: either \<^verbatim>\<open>null\<close>, on which reading any
  property throws a \<^verbatim>\<open>TypeError\<close>, or another value, given by what its five properties
  read as (\<^verbatim>\<open>undefined\<close> when absent, so all five for a number, a string, a boolean or an
  array). Properties that are present are strings, \<^verbatim>\<open>expires_in\<close> an integer; values
  of other types there are outside the model.
\<close>

datatype json = JNull | JBool bool | JNum int | JStr string | JArr "json list"
  | JObj "(string \<times> json) list"

record token_json =
  access_token :: "string option"
  refresh_token :: "string option"
  expires_in :: "int option"
  error :: "string option"
  error_description :: "string option"

datatype token_value = JsonNull | JsonValue token_json

text \<open>The message of the \<^verbatim>\<open>TypeError\<close> for reading a property of \<^verbatim>\<open>null\<close>, as
  V8 words it. An error is kept by its message and the two properties the data client sets, so
  a \<^verbatim>\<open>TypeError\<close> is the record \<open>Error\<close> builds.\<close>

definition null_read_message :: "string \<Rightarrow> string" where
  "null_read_message prop =
     ''Cannot read properties of null (reading '' @ [CHR 0x27] @ prop @ [CHR 0x27] @ '')''"

text \<open>
  A response body either fails \<^verbatim>\<open>JSON.parse\<close> (with the parser's message) or parses.
  An exchange ends in a transport error (the \<^verbatim>\<open>req.on('error')\<close> handler) or in a
  response with status code, status message, \<^verbatim>\<open>retry-after\<close> header and body; it takes
  some milliseconds of wall-clock time.
\<close>

datatype 'a body = Unparsable string | Parsed 'a

datatype 'a http_outcome =
  TransportFailure string
| Response nat string "string option" "'a body"

datatype 'a reply = Reply nat "'a http_outcome"

text \<open>
  The two form bodies sent to the token endpoint, recorded by their fields (the
  percent-encoding of \<^verbatim>\<open>URLSearchParams.toString\<close> is not modelled).
\<close>

datatype grant =
  PasswordGrant string string string
| RefreshGrant string string

datatype event =
  TokenPost string grant
| Fetch string "string option"
| Sleep millis

text \<open>
  The world outside the two objects: the clock read by \<^verbatim>\<open>Date.now()\<close>, the replies the
  two servers will give, in order, and the trace of network requests and sleeps performed so
  far. When a script is used up the server is gone: every further exchange is a transport
  failure.
\<close>

record world =
  clock :: int
  token_replies :: "token_value reply list"
  data_replies :: "json reply list"
  trace :: "event list"

definition token_exchange ::
  "string \<Rightarrow> grant \<Rightarrow> world \<Rightarrow> token_value http_outcome \<times> world" where
  "token_exchange url form w =
     (case token_replies w of
        [] \<Rightarrow> (TransportFailure ''connect ECONNREFUSED'',
               w\<lparr>trace := trace w @ [TokenPost url form]\<rparr>)
      | Reply ms out # rs \<Rightarrow>
          (out, w\<lparr>clock := clock w + int ms, token_replies := rs,
                  trace := trace w @ [TokenPost url form]\<rparr>))"

definition data_exchange ::
  "string \<Rightarrow> string option \<Rightarrow> world \<Rightarrow> json http_outcome \<times> world" where
  "data_exchange url token w =
     (case data_replies w of
        [] \<Rightarrow> (TransportFailure ''connect ECONNREFUSED'',
               w\<lparr>trace := trace w @ [Fetch url token]\<rparr>)
      | Reply ms out # rs \<Rightarrow>
          (out, w\<lparr>clock := clock w + int ms, data_replies := rs,
                  trace := trace w @ [Fetch url token]\<rparr>))"

text \<open>
  \<^verbatim>\<open>sleep(ms)\<close> is \<^verbatim>\<open>setTimeout(resolve, ms)\<close>. The timer of Node takes a delay that
  is not a number, below 1 or above 2147483647 (\<open>2^31 - 1\<close>) as a delay of 1, and cuts a
  fraction of a millisecond off. The trace records the argument of the call; the clock advances
  by the delay of the timer (a timer firing late is not modelled).
\<close>

definition timer_delay :: "millis \<Rightarrow> int" where
  "timer_delay d =
     (case d of
        Millis q \<Rightarrow> if 1 \<le> q \<and> q \<le> 2147483647 then \<lfloor>q\<rfloor> else 1
      | Unbounded b \<Rightarrow> 1
      | NaN \<Rightarrow> 1)"

definition sleep :: "millis \<Rightarrow> world \<Rightarrow> world" where
  "sleep ms w = w\<lparr>clock := clock w + timer_delay ms, trace := trace w @ [Sleep ms]\<rparr>"

section \<open>iRacingAuthManager\<close>

record auth_state =
  clientId :: string
  accessToken :: "string option"
  refreshToken :: "string option"
  tokenExpiry :: "int option"

definition tokenEndpoint :: string where
  "tokenEndpoint = ''https://id.iracing.com/auth/token''"

definition refreshBuffer :: int where
  "refreshBuffer = 300000"

text \<open>\<^verbatim>\<open>parsed.error_description || parsed.error || 'Unknown error'\<close>\<close>

definition error_text :: "token_json \<Rightarrow> string" where
  "error_text parsed =
     (case or_str (error_description parsed) (or_str (error parsed) (Some ''Unknown error'')) of
        Some d \<Rightarrow> d
      | None \<Rightarrow> ''Unknown error'')"

text \<open>
  The handler of \<^verbatim>\<open>makeRequest\<close> parses the body and builds the rejection inside one
  \<^verbatim>\<open>try\<close>: when the body is \<^verbatim>\<open>null\<close> and the status is outside 200..299, reading
  \<^verbatim>\<open>parsed.error_description\<close> throws, and the \<^verbatim>\<open>catch\<close> rejects with the
  "Failed to parse response" error.
\<close>

definition makeRequest :: "string \<Rightarrow> grant \<Rightarrow> world \<Rightarrow> (js_error + token_value) \<times> world" where
  "makeRequest url form w =
     (case token_exchange url form w of
        (TransportFailure msg, w') \<Rightarrow> (Inl (Error (''Request failed: '' @ msg)), w')
      | (Response status statusMessage hdr b, w') \<Rightarrow>
          (case b of
             Unparsable msg \<Rightarrow> (Inl (Error (''Failed to parse response: '' @ msg)), w')
           | Parsed parsed \<Rightarrow>
               if 200 \<le> status \<and> status < 300 then (Inr parsed, w')
               else
                 (case parsed of
                    JsonNull \<Rightarrow>
                      (Inl (Error (''Failed to parse response: '' @
                                   null_read_message ''error_description'')), w')
                  | JsonValue obj \<Rightarrow>
                      (Inl (Error (''HTTP '' @ show_nat status @ '': '' @ error_text obj)), w'))))"

text \<open>
  \<^verbatim>\<open>storeTokens\<close> reads \<^verbatim>\<open>tokenData.access_token\<close> first: on \<^verbatim>\<open>null\<close> that
  throws before anything is assigned.
\<close>

definition storeTokens :: "token_value \<Rightarrow> int \<Rightarrow> auth_state \<Rightarrow> js_error + auth_state" where
  "storeTokens tokenData now s =
     (case tokenData of
        JsonNull \<Rightarrow> Inl (Error (null_read_message ''access_token''))
      | JsonValue obj \<Rightarrow>
          Inr (s\<lparr>accessToken := access_token obj,
                 refreshToken := refresh_token obj,
                 tokenExpiry := (case expires_in obj of
                                   None \<Rightarrow> None
                                 | Some n \<Rightarrow> Some (now + n * 1000))\<rparr>))"

definition clearTokens :: "auth_state \<Rightarrow> auth_state" where
  "clearTokens s = s\<lparr>accessToken := None, refreshToken := None, tokenExpiry := None\<rparr>"

text \<open>Both callers run \<^verbatim>\<open>storeTokens\<close> inside their \<^verbatim>\<open>try\<close>, so its error is caught
  and thrown again like that of \<^verbatim>\<open>makeRequest\<close>.\<close>

definition authenticate ::
  "string \<Rightarrow> string \<Rightarrow> auth_state \<Rightarrow> world \<Rightarrow> (js_error + token_value) \<times> auth_state \<times> world" where
  "authenticate email password s w =
     (case makeRequest tokenEndpoint (PasswordGrant email password (clientId s)) w of
        (Inr response, w') \<Rightarrow>
          (case storeTokens response (clock w') s of
             Inr s' \<Rightarrow> (Inr response, s', w')
           | Inl err \<Rightarrow> (Inl err, s, w'))
      | (Inl err, w') \<Rightarrow> (Inl err, s, w'))"

definition refreshAccessToken ::
  "auth_state \<Rightarrow> world \<Rightarrow> (js_error + token_value) \<times> auth_state \<times> world" where
  "refreshAccessToken s w =
     (case refreshToken s of
        None \<Rightarrow> (Inl (Error ''No refresh token available. Please authenticate first.''), s, w)
      | Some rt \<Rightarrow>
          if rt = [] then
            (Inl (Error ''No refresh token available. Please authenticate first.''), s, w)
          else
            (case makeRequest tokenEndpoint (RefreshGrant rt (clientId s)) w of
               (Inr response, w') \<Rightarrow>
                 (case storeTokens response (clock w') s of
                    Inr s' \<Rightarrow> (Inr response, s', w')
                  | Inl err \<Rightarrow> (Inl err, clearTokens s, w'))
             | (Inl err, w') \<Rightarrow> (Inl err, clearTokens s, w')))"

definition needsRefresh :: "auth_state \<Rightarrow> int \<Rightarrow> bool" where
  "needsRefresh s now =
     (case tokenExpiry s of
        None \<Rightarrow> True
      | Some e \<Rightarrow> if e = 0 then True else now \<ge> e - refreshBuffer)"

definition getValidToken ::
  "auth_state \<Rightarrow> world \<Rightarrow> (js_error + string option) \<times> auth_state \<times> world" where
  "getValidToken s w =
     (if \<not> truthy_str (accessToken s) then
        (Inl (Error ''Not authenticated. Please call authenticate() first.''), s, w)
      else if needsRefresh s (clock w) then
        (case refreshAccessToken s w of
           (Inl err, s', w') \<Rightarrow> (Inl err, s', w')
         | (Inr response, s', w') \<Rightarrow> (Inr (accessToken s'), s', w'))
      else (Inr (accessToken s), s, w))"

section \<open>iRacingDataClient\<close>

definition baseUrl :: string where
  "baseUrl = ''https://members-ng.iracing.com/data''"

text \<open>
  The error \<^verbatim>\<open>makeHttpsRequest\<close> rejects with on a status outside 200..299: the
  message, and the \<^verbatim>\<open>statusCode\<close> and \<^verbatim>\<open>retryAfter\<close> properties set on it.
\<close>

definition http_error :: "nat \<Rightarrow> string \<Rightarrow> string option \<Rightarrow> js_error" where
  "http_error status statusMessage hdr =
     \<lparr>message = ''HTTP '' @ show_nat status @ '': '' @ statusMessage,
      statusCode = Some status, retryAfter = hdr\<rparr>"

definition makeHttpsRequest ::
  "string \<Rightarrow> string option \<Rightarrow> world \<Rightarrow> (js_error + json) \<times> world" where
  "makeHttpsRequest url token w =
     (case data_exchange url token w of
        (TransportFailure msg, w') \<Rightarrow> (Inl (Error (''Request failed: '' @ msg)), w')
      | (Response status statusMessage hdr b, w') \<Rightarrow>
          if 200 \<le> status \<and> status < 300 then
            (case b of
               Parsed v \<Rightarrow> (Inr v, w')
             | Unparsable msg \<Rightarrow> (Inl (Error (''Failed to parse JSON: '' @ msg)), w'))
          else
            (Inl (http_error status statusMessage hdr), w'))"

text \<open>The body of the \<^verbatim>\<open>try\<close> block of \<^verbatim>\<open>request\<close>: one attempt.\<close>

definition try_fetch ::
  "string \<Rightarrow> auth_state \<Rightarrow> world \<Rightarrow> (js_error + json) \<times> auth_state \<times> world" where
  "try_fetch endpoint s w =
     (case getValidToken s w of
        (Inl err, s1, w1) \<Rightarrow> (Inl err, s1, w1)
      | (Inr token, s1, w1) \<Rightarrow>
          (case makeHttpsRequest (baseUrl @ ''/'' @ endpoint) token w1 of
             (r, w2) \<Rightarrow> (r, s1, w2)))"

text \<open>
  \<^verbatim>\<open>error.retryAfter || Math.pow(2, attempt)\<close>, times 1000: the header string when it
  is truthy, converted to a number; otherwise the power of two.
\<close>

definition rate_limit_wait :: "string option \<Rightarrow> nat \<Rightarrow> millis" where
  "rate_limit_wait hdr attempt =
     (case hdr of
        None \<Rightarrow> Millis (2 ^ attempt * 1000)
      | Some v \<Rightarrow>
          if v = [] then Millis (2 ^ attempt * 1000) else times_1000 (to_number v))"

text \<open>
  The \<^verbatim>\<open>for\<close> loop of \<^verbatim>\<open>request\<close>, from a given attempt on, with the value of
  \<^verbatim>\<open>lastError\<close> (\<open>None\<close> is \<^verbatim>\<open>undefined\<close>, which is what the final \<^verbatim>\<open>throw\<close>
  throws when the loop body never ran).
\<close>

function request_loop ::
  "string \<Rightarrow> nat \<Rightarrow> nat \<Rightarrow> js_error option \<Rightarrow> auth_state \<Rightarrow> world
     \<Rightarrow> (js_error option + json) \<times> auth_state \<times> world" where
  "request_loop endpoint maxRetries attempt lastError s w =
     (if attempt < maxRetries then
        (case try_fetch endpoint s w of
           (Inr data, s1, w1) \<Rightarrow> (Inr data, s1, w1)
         | (Inl err, s1, w1) \<Rightarrow>
             if statusCode err = Some 401 then
               (case refreshAccessToken s1 w1 of
                  (Inl err2, s2, w2) \<Rightarrow> (Inl (Some err2), s2, w2)
                | (Inr response, s2, w2) \<Rightarrow>
                    request_loop endpoint maxRetries (attempt + 1) (Some err) s2 w2)
             else if statusCode err = Some 429 then
               request_loop endpoint maxRetries (attempt + 1) (Some err) s1
                 (sleep (rate_limit_wait (retryAfter err) attempt) w1)
             else if (case statusCode err of None \<Rightarrow> False | Some c \<Rightarrow> c \<ge> 500)
                     \<and> int attempt < int maxRetries - 1 then
               request_loop endpoint maxRetries (attempt + 1) (Some err) s1
                 (sleep (Millis (2 ^ attempt * 1000)) w1)
             else (Inl (Some err), s1, w1))
      else (Inl lastError, s, w))"
  by pat_completeness auto
termination
  by (relation "measure (\<lambda>(endpoint, maxRetries, attempt, lastError, s, w). maxRetries - attempt)")
     auto

declare request_loop.simps [simp del]

record client_state =
  auth :: auth_state
  cache :: "string \<rightharpoonup> json"
  cacheExpiry :: "string \<rightharpoonup> int"

definition request ::
  "string \<Rightarrow> nat \<Rightarrow> client_state \<Rightarrow> world \<Rightarrow> (js_error option + json) \<times> client_state \<times> world" where
  "request endpoint maxRetries c w =
     (case request_loop endpoint maxRetries 0 None (auth c) w of
        (r, s', w') \<Rightarrow> (r, c\<lparr>auth := s'\<rparr>, w'))"

text \<open>\<^verbatim>\<open>cachedRequest\<close> calls \<^verbatim>\<open>this.request(endpoint)\<close>, so with the default of 3.\<close>

definition cache_hit :: "client_state \<Rightarrow> string \<Rightarrow> int \<Rightarrow> json option" where
  "cache_hit c endpoint now =
     (case cache c endpoint of
        None \<Rightarrow> None
      | Some v \<Rightarrow>
          (case cacheExpiry c endpoint of
             None \<Rightarrow> None
           | Some expiry \<Rightarrow> if now < expiry then Some v else None))"

definition cachedRequest ::
  "string \<Rightarrow> int \<Rightarrow> client_state \<Rightarrow> world \<Rightarrow> (js_error option + json) \<times> client_state \<times> world" where
  "cachedRequest endpoint ttl c w =
     (let now = clock w in
      case cache_hit c endpoint now of
        Some v \<Rightarrow> (Inr v, c, w)
      | None \<Rightarrow>
          (case request endpoint 3 c w of
             (Inr data, c', w') \<Rightarrow>
               (Inr data,
                c'\<lparr>cache := (cache c')(endpoint \<mapsto> data),
                   cacheExpiry := (cacheExpiry c')(endpoint \<mapsto> now + ttl)\<rparr>, w')
           | (Inl err, c', w') \<Rightarrow> (Inl err, c', w')))"

definition clearCache :: "client_state \<Rightarrow> client_state" where
  "clearCache c = c\<lparr>cache := Map.empty, cacheExpiry := Map.empty\<rparr>"

section \<open>Observations used in the statements\<close>

text \<open>The number of requests sent to the token endpoint in a trace.\<close>

definition token_posts :: "event list \<Rightarrow> nat" where
  "token_posts evs =
     length (filter (\<lambda>ev. case ev of TokenPost u g \<Rightarrow> True | Fetch u t \<Rightarrow> False | Sleep d \<Rightarrow> False) evs)"

text \<open>The requests to the data endpoint and the sleeps of a trace, in order.\<close>

definition data_events :: "event list \<Rightarrow> event list" where
  "data_events evs =
     filter (\<lambda>ev. case ev of TokenPost u g \<Rightarrow> False | Fetch u t \<Rightarrow> True | Sleep d \<Rightarrow> True) evs"

text \<open>The world after one GET of an endpoint that took \<open>ms\<close> milliseconds and left the
  replies \<open>rest\<close> to come.\<close>

definition fetched :: "string \<Rightarrow> string option \<Rightarrow> nat \<Rightarrow> json reply list \<Rightarrow> world \<Rightarrow> world" where
  "fetched endpoint token ms rest w =
     w\<lparr>clock := clock w + int ms, data_replies := rest,
       trace := trace w @ [Fetch (baseUrl @ ''/'' @ endpoint) token]\<rparr>"

text \<open>The world after one exchange with the token endpoint that took \<open>ms\<close> milliseconds
  and left the replies \<open>rest\<close> to come.\<close>

definition posted :: "grant \<Rightarrow> nat \<Rightarrow> token_value reply list \<Rightarrow> world \<Rightarrow> world" where
  "posted form ms rest w =
     w\<lparr>clock := clock w + int ms, token_replies := rest,
       trace := trace w @ [TokenPost tokenEndpoint form]\<rparr>"

text \<open>The manager after \<^verbatim>\<open>storeTokens\<close> has stored a value whose properties can be
  read.\<close>

definition stored :: "token_json \<Rightarrow> int \<Rightarrow> auth_state \<Rightarrow> auth_state" where
  "stored obj now s =
     s\<lparr>accessToken := access_token obj,
       refreshToken := refresh_token obj,
       tokenExpiry := (case expires_in obj of None \<Rightarrow> None | Some n \<Rightarrow> Some (now + n * 1000))\<rparr>"

section \<open>Basic facts\<close>

lemma show_nat_status: "show_nat 500 = ''500''" "show_nat 401 = ''401''" "show_nat 429 = ''429''"
  "show_nat 400 = ''400''"
  by (simp_all add: show_nat.simps digit_char_def)

lemma Error_sel [simp]:
  "statusCode (Error m) = None" "retryAfter (Error m) = None" "message (Error m) = m"
  by (simp_all add: Error_def)

lemma http_error_sel [simp]:
  "statusCode (http_error status sm hdr) = Some status"
  "retryAfter (http_error status sm hdr) = hdr"
  by (simp_all add: http_error_def)

lemma world_eqI:
  "clock w = a \<Longrightarrow> token_replies w = b \<Longrightarrow> data_replies w = c \<Longrightarrow> trace w = d \<Longrightarrow>
   w = \<lparr>clock = a, token_replies = b, data_replies = c, trace = d\<rparr>"
  by (cases w) simp

lemma fetched_sel [simp]:
  "clock (fetched endpoint token ms rest w) = clock w + int ms"
  "data_replies (fetched endpoint token ms rest w) = rest"
  "token_replies (fetched endpoint token ms rest w) = token_replies w"
  "trace (fetched endpoint token ms rest w) = trace w @ [Fetch (baseUrl @ ''/'' @ endpoint) token]"
  by (simp_all add: fetched_def)

lemma sleep_sel [simp]:
  "clock (sleep d w) = clock w + timer_delay d"
  "data_replies (sleep d w) = data_replies w"
  "token_replies (sleep d w) = token_replies w"
  "trace (sleep d w) = trace w @ [Sleep d]"
  by (simp_all add: sleep_def)

lemma timer_delay_in_range [simp]:
  "1 \<le> q \<Longrightarrow> q \<le> 2147483647 \<Longrightarrow> timer_delay (Millis q) = \<lfloor>q\<rfloor>"
  by (simp add: timer_delay_def)

lemma posted_sel [simp]:
  "clock (posted form ms rest w) = clock w + int ms"
  "token_replies (posted form ms rest w) = rest"
  "data_replies (posted form ms rest w) = data_replies w"
  "trace (posted form ms rest w) = trace w @ [TokenPost tokenEndpoint form]"
  by (simp_all add: posted_def)

lemma fetched_world:
  "fetched endpoint token ms rest w =
     \<lparr>clock = clock w + int ms, token_replies = token_replies w, data_replies = rest,
      trace = trace w @ [Fetch (baseUrl @ ''/'' @ endpoint) token]\<rparr>"
  by (rule world_eqI) simp_all

lemma sleep_fetched_world:
  "sleep d (fetched endpoint token ms rest w) =
     \<lparr>clock = clock w + int ms + timer_delay d, token_replies = token_replies w,
      data_replies = rest,
      trace = trace w @ [Fetch (baseUrl @ ''/'' @ endpoint) token, Sleep d]\<rparr>"
  by (rule world_eqI) simp_all

lemma token_posts_snoc [simp]: "token_posts (evs @ [TokenPost u g]) = token_posts evs + 1"
  by (simp add: token_posts_def)

subsection \<open>The token manager\<close>

lemma makeRequest_error_plain:
  "makeRequest url form w = (Inl err, w') \<Longrightarrow> statusCode err = None"
  by (auto simp: makeRequest_def
      split: prod.splits http_outcome.splits body.splits if_splits token_value.splits)

lemma makeRequest_trace:
  "makeRequest url form w = (r, w') \<Longrightarrow> trace w' = trace w @ [TokenPost url form]"
  by (auto simp: makeRequest_def token_exchange_def
      split: prod.splits http_outcome.splits body.splits if_splits list.splits reply.splits
        token_value.splits)

lemma makeRequest_reply:
  "token_replies w = Reply ms out # rest \<Longrightarrow>
   makeRequest tokenEndpoint form w =
     ((case out of
         TransportFailure msg \<Rightarrow> Inl (Error (''Request failed: '' @ msg))
       | Response status statusMessage hdr b \<Rightarrow>
          (case b of
             Unparsable msg \<Rightarrow> Inl (Error (''Failed to parse response: '' @ msg))
           | Parsed parsed \<Rightarrow>
               if 200 \<le> status \<and> status < 300 then Inr parsed
               else
                 (case parsed of
                    JsonNull \<Rightarrow>
                      Inl (Error (''Failed to parse response: '' @
                                  null_read_message ''error_description''))
                  | JsonValue obj \<Rightarrow>
                      Inl (Error (''HTTP '' @ show_nat status @ '': '' @ error_text obj))))),
      posted form ms rest w)"
  by (auto simp: makeRequest_def token_exchange_def posted_def
      split: http_outcome.splits body.splits token_value.splits)

lemma refreshAccessToken_error_plain:
  "refreshAccessToken s w = (Inl err, s', w') \<Longrightarrow> statusCode err = None"
  by (auto simp: refreshAccessToken_def storeTokens_def
      split: option.splits if_splits prod.splits sum.splits token_value.splits dest: makeRequest_error_plain)

lemma refreshAccessToken_posts:
  "refreshAccessToken s w = (r, s', w') \<Longrightarrow>
   token_posts (trace w') = token_posts (trace w) + (if truthy_str (refreshToken s) then 1 else 0)"
  by (auto simp: refreshAccessToken_def storeTokens_def truthy_str_def
      split: option.splits if_splits prod.splits sum.splits token_value.splits dest!: makeRequest_trace)

lemma getValidToken_error_plain:
  "getValidToken s w = (Inl err, s', w') \<Longrightarrow> statusCode err = None"
  by (auto simp: getValidToken_def
      split: option.splits if_splits prod.splits sum.splits token_value.splits dest: refreshAccessToken_error_plain)

lemma getValidToken_fresh:
  "truthy_str (accessToken s) \<Longrightarrow> \<not> needsRefresh s (clock w) \<Longrightarrow>
   getValidToken s w = (Inr (accessToken s), s, w)"
  by (simp add: getValidToken_def)

lemma needsRefresh_mono:
  "needsRefresh s now \<Longrightarrow> now \<le> now' \<Longrightarrow> needsRefresh s now'"
  by (auto simp: needsRefresh_def split: option.splits if_splits)

lemma refreshAccessToken_data_events:
  "refreshAccessToken s w = (r, s', w') \<Longrightarrow> data_events (trace w') = data_events (trace w)"
  by (auto simp: refreshAccessToken_def storeTokens_def data_events_def
      split: option.splits if_splits prod.splits sum.splits token_value.splits dest!: makeRequest_trace)

lemma getValidToken_data_events:
  "getValidToken s w = (r, s', w') \<Longrightarrow> data_events (trace w') = data_events (trace w)"
  by (auto simp: getValidToken_def split: if_splits prod.splits sum.splits
      dest: refreshAccessToken_data_events)

subsection \<open>One attempt of the retry loop\<close>

lemma try_fetch_fresh_error:
  assumes "truthy_str (accessToken s)" "\<not> needsRefresh s (clock w)"
    and "data_replies w = Reply ms (Response status sm hdr b) # rest"
    and "\<not> (200 \<le> status \<and> status < 300)"
  shows "try_fetch endpoint s w =
           (Inl (http_error status sm hdr), s, fetched endpoint (accessToken s) ms rest w)"
  using assms
  by (auto simp: try_fetch_def getValidToken_fresh makeHttpsRequest_def data_exchange_def
      fetched_def)

lemma try_fetch_fresh_ok:
  assumes "truthy_str (accessToken s)" "\<not> needsRefresh s (clock w)"
    and "data_replies w = Reply ms (Response status sm hdr (Parsed v)) # rest"
    and "200 \<le> status \<and> status < 300"
  shows "try_fetch endpoint s w = (Inr v, s, fetched endpoint (accessToken s) ms rest w)"
  using assms
  by (simp add: try_fetch_def getValidToken_fresh makeHttpsRequest_def data_exchange_def
      fetched_def)

lemma request_loop_done:
  "\<not> attempt < maxRetries \<Longrightarrow>
   request_loop endpoint maxRetries attempt lastError s w = (Inl lastError, s, w)"
  by (subst request_loop.simps) simp

lemma request_loop_auth_error:
  "attempt < maxRetries \<Longrightarrow> getValidToken s w = (Inl err, s1, w1) \<Longrightarrow>
   request_loop endpoint maxRetries attempt lastError s w = (Inl (Some err), s1, w1)"
  by (subst request_loop.simps) (simp add: try_fetch_def getValidToken_error_plain)

lemma request_loop_ok:
  assumes "attempt < maxRetries" "truthy_str (accessToken s)" "\<not> needsRefresh s (clock w)"
    and "data_replies w = Reply ms (Response status sm hdr (Parsed v)) # rest"
    and "200 \<le> status \<and> status < 300"
  shows "request_loop endpoint maxRetries attempt lastError s w =
           (Inr v, s, fetched endpoint (accessToken s) ms rest w)"
  using assms(1) try_fetch_fresh_ok [OF assms(2-5), where endpoint=endpoint]
  by (subst request_loop.simps) simp

lemma request_loop_429:
  assumes "attempt < maxRetries" "truthy_str (accessToken s)" "\<not> needsRefresh s (clock w)"
    and "data_replies w = Reply ms (Response 429 sm hdr b) # rest"
  shows "request_loop endpoint maxRetries attempt lastError s w =
           request_loop endpoint maxRetries (Suc attempt) (Some (http_error 429 sm hdr)) s
             (sleep (rate_limit_wait hdr attempt) (fetched endpoint (accessToken s) ms rest w))"
  using assms(1) try_fetch_fresh_error [OF assms(2-4), where endpoint=endpoint]
  by (subst request_loop.simps) simp

lemma request_loop_5xx_retry:
  assumes "Suc attempt < maxRetries" "truthy_str (accessToken s)" "\<not> needsRefresh s (clock w)"
    and "data_replies w = Reply ms (Response status sm hdr b) # rest"
    and "500 \<le> status"
  shows "request_loop endpoint maxRetries attempt lastError s w =
           request_loop endpoint maxRetries (Suc attempt) (Some (http_error status sm hdr)) s
             (sleep (Millis (2 ^ attempt * 1000)) (fetched endpoint (accessToken s) ms rest w))"
  using assms(1,5) try_fetch_fresh_error [OF assms(2-4), where endpoint=endpoint]
  by (subst request_loop.simps) simp

lemma request_loop_5xx_last:
  assumes "Suc attempt = maxRetries" "truthy_str (accessToken s)" "\<not> needsRefresh s (clock w)"
    and "data_replies w = Reply ms (Response status sm hdr b) # rest"
    and "500 \<le> status"
  shows "request_loop endpoint maxRetries attempt lastError s w =
           (Inl (Some (http_error status sm hdr)), s, fetched endpoint (accessToken s) ms rest w)"
  using assms(1,5) try_fetch_fresh_error [OF assms(2-4), where endpoint=endpoint]
  by (subst request_loop.simps) auto

lemma request_loop_401:
  assumes "attempt < maxRetries" "truthy_str (accessToken s)" "\<not> needsRefresh s (clock w)"
    and "data_replies w = Reply ms (Response 401 sm hdr b) # rest"
  shows "request_loop endpoint maxRetries attempt lastError s w =
           (case refreshAccessToken s (fetched endpoint (accessToken s) ms rest w) of
              (Inl err2, s2, w2) \<Rightarrow> (Inl (Some err2), s2, w2)
            | (Inr response, s2, w2) \<Rightarrow>
                request_loop endpoint maxRetries (attempt + 1) (Some (http_error 401 sm hdr)) s2 w2)"
  using assms(1) try_fetch_fresh_error [OF assms(2-4), where endpoint=endpoint]
  by (subst request_loop.simps) simp

lemma request_cache_frame:
  "request endpoint n c w = (r, c', w') \<Longrightarrow> cache c' = cache c \<and> cacheExpiry c' = cacheExpiry c"
  by (auto simp: request_def split: prod.splits)

lemma request_loop_other_error:
  assumes "attempt < maxRetries" "truthy_str (accessToken s)" "\<not> needsRefresh s (clock w)"
    and "data_replies w = Reply ms (Response status sm hdr b) # rest"
    and "status < 200 \<or> 300 \<le> status" "status \<noteq> 401" "status \<noteq> 429" "status < 500"
  shows "request_loop endpoint maxRetries attempt lastError s w =
           (Inl (Some (http_error status sm hdr)), s, fetched endpoint (accessToken s) ms rest w)"
proof -
  have "\<not> (200 \<le> status \<and> status < 300)" using assms(5) by auto
  from assms(1,6-8) try_fetch_fresh_error [OF assms(2-4) this, where endpoint=endpoint]
  show ?thesis by (subst request_loop.simps) auto
qed

lemma token_posts_Nil [simp]: "token_posts [] = 0"
  by (simp add: token_posts_def)

subsection \<open>Printing and reading a number of seconds\<close>

lemma digit_val_digit_char: "d < 10 \<Longrightarrow> digit_val (digit_char d) = Some d"
proof -
  assume "d < 10"
  then have "d \<in> {0, 1, 2, 3, 4, 5, 6, 7, 8, 9}" by auto
  then show ?thesis
    by (auto simp: digit_val_def digit_char_def)
qed

lemma is_digit_digit_char: "d < 10 \<Longrightarrow> is_digit (digit_char d)"
proof -
  assume "d < 10"
  then have "d \<in> {0, 1, 2, 3, 4, 5, 6, 7, 8, 9}" by auto
  then show ?thesis
    by (auto simp: is_digit_def digit_char_def)
qed

lemma to_number_acc_snoc:
  "to_number_acc a (xs @ [c]) =
     (case to_number_acc a xs of
        None \<Rightarrow> None
      | Some b \<Rightarrow> (case digit_val c of None \<Rightarrow> None | Some d \<Rightarrow> Some (10 * b + d)))"
  by (induction xs arbitrary: a) (auto split: option.splits)

lemma to_number_acc_show_nat: "to_number_acc 0 (show_nat n) = Some n"
proof (induction n rule: show_nat.induct)
  case (1 n)
  show ?case
  proof (cases "n < 10")
    case True
    then show ?thesis
      by (subst show_nat.simps) (simp add: digit_val_digit_char)
  next
    case False
    then have "to_number_acc 0 (show_nat (n div 10)) = Some (n div 10)"
      using 1 by simp
    with False show ?thesis
      by (subst show_nat.simps) (simp add: to_number_acc_snoc digit_val_digit_char)
  qed
qed

lemma show_nat_nonempty: "show_nat n \<noteq> []"
  by (subst show_nat.simps) simp

lemma show_nat_digits: "\<forall>c \<in> set (show_nat n). is_digit c"
proof (induction n rule: show_nat.induct)
  case (1 n)
  show ?case
  proof (cases "n < 10")
    case True
    then show ?thesis
      by (subst show_nat.simps) (simp add: is_digit_digit_char)
  next
    case False
    then have "\<forall>c \<in> set (show_nat (n div 10)). is_digit c"
      using 1 by simp
    with False show ?thesis
      by (subst show_nat.simps) (simp add: is_digit_digit_char)
  qed
qed

text \<open>A text of decimal digits converts to the number it denotes.\<close>

lemma digit_facts:
  assumes "is_digit c"
  shows "\<not> is_white c" "c \<noteq> CHR ''+''" "c \<noteq> CHR ''-''" "c \<noteq> CHR ''I''"
    "c \<noteq> CHR ''x''" "c \<noteq> CHR ''X''" "c \<noteq> CHR ''o''" "c \<noteq> CHR ''O''"
    "c \<noteq> CHR ''b''" "c \<noteq> CHR ''B''"
  using assms by (auto simp: is_digit_def is_white_def)

lemma dropWhile_hd: "xs \<noteq> [] \<Longrightarrow> \<not> P (hd xs) \<Longrightarrow> dropWhile P xs = xs"
  by (cases xs) auto

lemma trim_digits:
  assumes "\<forall>c \<in> set s. is_digit c"
  shows "trim s = s"
proof (cases "s = []")
  case True
  then show ?thesis by (simp add: trim_def)
next
  case False
  then have "is_digit (hd s)" "is_digit (last s)" using assms by simp_all
  then have "\<not> is_white (hd s)" "\<not> is_white (hd (rev s))"
    using False by (simp_all add: hd_rev digit_facts)
  then have "dropWhile is_white s = s" "dropWhile is_white (rev s) = rev s"
    using False by (simp_all add: dropWhile_hd)
  then show ?thesis by (simp add: trim_def)
qed

lemma radix_literal_digits:
  assumes "\<forall>c \<in> set s. is_digit c"
  shows "radix_literal s = None"
proof (cases s)
  case Nil
  then show ?thesis by (simp add: radix_literal_def)
next
  case (Cons a as)
  show ?thesis
  proof (cases as)
    case Nil
    with Cons show ?thesis by (simp add: radix_literal_def)
  next
    case (Cons b bs)
    with \<open>s = a # as\<close> assms have "is_digit b" by simp
    with Cons \<open>s = a # as\<close> show ?thesis
      by (simp add: radix_literal_def digit_facts)
  qed
qed

lemma unsigned_decimal_digits:
  assumes "s \<noteq> []" "\<forall>c \<in> set s. is_digit c" "to_number_acc 0 s = Some n"
  shows "unsigned_decimal s = Finite (of_nat n)"
proof -
  have tw: "takeWhile is_digit s = s" "dropWhile is_digit s = []"
    using assms(2) by simp_all
  have "is_digit (hd s)" using assms(1,2) by (cases s) auto
  then have "hd s \<noteq> CHR ''I''" by (simp add: digit_facts)
  then have "s \<noteq> ''Infinity''" by auto
  then show ?thesis
    using assms(1,3) by (simp add: unsigned_decimal_def tw exponent_part_def scale_def)
qed

lemma to_number_digits:
  assumes "s \<noteq> []" "\<forall>c \<in> set s. is_digit c" "to_number_acc 0 s = Some n"
  shows "to_number s = Finite (of_nat n)"
proof -
  obtain a as where s: "s = a # as" using assms(1) by (cases s) auto
  then have "is_digit a" using assms(2) by simp
  then have sign: "a \<noteq> CHR ''+''" "a \<noteq> CHR ''-''" by (simp_all add: digit_facts)
  have "to_number s =
          (case s of
             [] \<Rightarrow> Finite 0
           | c # cs \<Rightarrow>
               if c = CHR ''+'' then unsigned_decimal cs
               else if c = CHR ''-'' then negate (unsigned_decimal cs)
               else unsigned_decimal s)"
    unfolding to_number_def Let_def trim_digits [OF assms(2)] radix_literal_digits [OF assms(2)]
    by (simp split: list.splits)
  also have "\<dots> = unsigned_decimal s"
    using sign by (simp add: s)
  finally show ?thesis
    by (simp add: unsigned_decimal_digits [OF assms])
qed

lemma to_number_show_nat: "to_number (show_nat n) = Finite (of_nat n)"
  by (rule to_number_digits [OF show_nat_nonempty show_nat_digits to_number_acc_show_nat])

lemma rate_limit_wait_absent: "rate_limit_wait None attempt = Millis (2 ^ attempt * 1000)"
  by (simp add: rate_limit_wait_def)

lemma rate_limit_wait_empty: "rate_limit_wait (Some []) attempt = Millis (2 ^ attempt * 1000)"
  by (simp add: rate_limit_wait_def)

lemma rate_limit_wait_finite:
  "v \<noteq> [] \<Longrightarrow> to_number v = Finite q \<Longrightarrow> rate_limit_wait (Some v) attempt = Millis (q * 1000)"
  by (simp add: rate_limit_wait_def times_1000_def)

lemma to_number_examples:
  "to_number ''2'' = Finite 2" "to_number ''1.5'' = Finite (3 / 2)"
  "to_number ''2147484'' = Finite 2147484"
  by (simp_all add: to_number_def trim_def is_white_def radix_literal_def unsigned_decimal_def
      is_digit_def digit_val_def exponent_part_def scale_def Let_def)

subsection \<open>A successful refresh\<close>

lemma refreshAccessToken_ok:
  assumes "refreshToken s = Some rt" "rt \<noteq> []"
    and "token_replies w = Reply ms (Response status sm hdr (Parsed (JsonValue tj))) # rest"
    and "200 \<le> status \<and> status < 300"
  shows "refreshAccessToken s w =
           (Inr (JsonValue tj), stored tj (clock w + int ms) s,
            posted (RefreshGrant rt (clientId s)) ms rest w)"
  using assms
  by (simp add: refreshAccessToken_def makeRequest_reply [OF assms(3)] storeTokens_def
      stored_def cong: option.case_cong)

lemma stored_fresh:
  assumes "truthy_str (access_token tj)" "expires_in tj = Some n" "300 < n" "0 \<le> now"
  shows "truthy_str (accessToken (stored tj now s))"
    and "\<not> needsRefresh (stored tj now s) now"
  using assms by (simp_all add: stored_def needsRefresh_def refreshBuffer_def)

subsection \<open>Requests that succeed at once\<close>

lemma request_fresh_ok:
  assumes "truthy_str (accessToken (auth c))" "\<not> needsRefresh (auth c) (clock w)"
    and "data_replies w = Reply ms (Response 200 sm hdr (Parsed v)) # rest"
  shows "request endpoint 3 c w = (Inr v, c, fetched endpoint (accessToken (auth c)) ms rest w)"
  using request_loop_ok [where attempt=0 and maxRetries=3 and s="auth c" and w=w and ms=ms
      and status=200 and sm=sm and hdr=hdr and v=v and rest=rest and endpoint=endpoint
      and lastError=None] assms
  by (simp add: request_def)

lemma cache_hit_Some:
  "cache c e = Some v \<Longrightarrow> cacheExpiry c e = Some x \<Longrightarrow> now < x \<Longrightarrow> cache_hit c e now = Some v"
  by (simp add: cache_hit_def)

lemma cache_hit_None:
  "cache c e = None \<or> cacheExpiry c e = None \<or> (\<exists>x. cacheExpiry c e = Some x \<and> x \<le> now) \<Longrightarrow>
   cache_hit c e now = None"
  by (auto simp: cache_hit_def split: option.splits)

lemma cachedRequest_miss_ok:
  assumes "cache c e = None \<or> cacheExpiry c e = None \<or>
           (\<exists>x. cacheExpiry c e = Some x \<and> x \<le> clock w)"
    and "truthy_str (accessToken (auth c))" "\<not> needsRefresh (auth c) (clock w)"
    and "data_replies w = Reply ms (Response 200 sm hdr (Parsed v)) # rest"
  shows "cachedRequest e ttl c w =
           (Inr v,
            c\<lparr>cache := (cache c)(e \<mapsto> v), cacheExpiry := (cacheExpiry c)(e \<mapsto> clock w + ttl)\<rparr>,
            fetched e (accessToken (auth c)) ms rest w)"
  using cache_hit_None [OF assms(1)] request_fresh_ok [OF assms(2-4), where endpoint=e]
  by (simp add: cachedRequest_def)

section \<open>The claims\<close>

text \<open>
  Claim C1. The manager holds a non-empty access token whose expiry is \<open>e\<close>, and
  \<^verbatim>\<open>Date.now()\<close> is not negative. If the expiry is more than the refresh buffer
  (300000 ms) ahead of the clock, \<^verbatim>\<open>getValidToken\<close> returns the stored token and
  leaves the manager and the world as they were: nothing is sent. If the expiry is within the
  buffer of the clock or behind it, \<^verbatim>\<open>getValidToken\<close> is one call of
  \<^verbatim>\<open>refreshAccessToken\<close>: it fails with that call's error or returns the access
  token stored after it, and the trace gains exactly one request to the token endpoint when a
  refresh token is stored (none when the refresh call fails for want of one).
\<close>

theorem getValidToken_refresh_policy:
  "accessToken s = Some t \<and> t \<noteq> [] \<and> tokenExpiry s = Some e \<and> 0 \<le> clock w \<Longrightarrow>
   (clock w < e - 300000 \<longrightarrow> getValidToken s w = (Inr (Some t), s, w)) \<and>
   (e - 300000 \<le> clock w \<longrightarrow>
      (\<exists>r s' w'. refreshAccessToken s w = (r, s', w') \<and>
         getValidToken s w =
           (case r of Inl err \<Rightarrow> Inl err | Inr response \<Rightarrow> Inr (accessToken s'), s', w') \<and>
         token_posts (trace w') =
           token_posts (trace w) + (if truthy_str (refreshToken s) then 1 else 0)))"
proof (intro conjI impI)
  assume h: "accessToken s = Some t \<and> t \<noteq> [] \<and> tokenExpiry s = Some e \<and> 0 \<le> clock w"
  { assume "clock w < e - 300000"
    with h have "\<not> needsRefresh s (clock w)"
      by (auto simp: needsRefresh_def refreshBuffer_def)
    with h show "getValidToken s w = (Inr (Some t), s, w)"
      using getValidToken_fresh [of s w] by (simp add: truthy_str_def) }
  assume "e - 300000 \<le> clock w"
  with h have nr: "needsRefresh s (clock w)"
    by (auto simp: needsRefresh_def refreshBuffer_def)
  obtain r s' w' where rf: "refreshAccessToken s w = (r, s', w')"
    by (cases "refreshAccessToken s w") auto
  from h nr rf have gv: "getValidToken s w =
      (case r of Inl err \<Rightarrow> Inl err | Inr response \<Rightarrow> Inr (accessToken s'), s', w')"
    by (simp add: getValidToken_def truthy_str_def split: sum.splits)
  from rf gv refreshAccessToken_posts [OF rf]
  show "\<exists>r s' w'. refreshAccessToken s w = (r, s', w') \<and>
         getValidToken s w =
           (case r of Inl err \<Rightarrow> Inl err | Inr response \<Rightarrow> Inr (accessToken s'), s', w') \<and>
         token_posts (trace w') =
           token_posts (trace w) + (if truthy_str (refreshToken s) then 1 else 0)"
    by blast
qed

theorem getValidToken_refresh_policy_witness:
  "getValidToken
     \<lparr>clientId = ''cid'', accessToken = Some ''tok'', refreshToken = Some ''ref'',
      tokenExpiry = Some 900000\<rparr>
     \<lparr>clock = 1000, token_replies = [], data_replies = [], trace = []\<rparr> =
   (Inr (Some ''tok''),
    \<lparr>clientId = ''cid'', accessToken = Some ''tok'', refreshToken = Some ''ref'',
      tokenExpiry = Some 900000\<rparr>,
    \<lparr>clock = 1000, token_replies = [], data_replies = [], trace = []\<rparr>) \<and>
   token_posts (trace (snd (snd (getValidToken
     \<lparr>clientId = ''cid'', accessToken = Some ''tok'', refreshToken = Some ''ref'',
      tokenExpiry = Some 301000\<rparr>
     \<lparr>clock = 1000, token_replies = [], data_replies = [], trace = []\<rparr>)))) = 1"
  using getValidToken_refresh_policy [where s="\<lparr>clientId = ''cid'', accessToken = Some ''tok'',
      refreshToken = Some ''ref'', tokenExpiry = Some 900000\<rparr>" and t="''tok''" and e=900000
      and w="\<lparr>clock = 1000, token_replies = [], data_replies = [], trace = []\<rparr>"]
    getValidToken_refresh_policy [where s="\<lparr>clientId = ''cid'', accessToken = Some ''tok'',
      refreshToken = Some ''ref'', tokenExpiry = Some 301000\<rparr>" and t="''tok''" and e=301000
      and w="\<lparr>clock = 1000, token_replies = [], data_replies = [], trace = []\<rparr>"]
  by (auto simp: truthy_str_def token_posts_def)

text \<open>
  Claim C2. The manager holds a token that needs no refresh up to the third attempt, the
  budget is 3 and the data endpoint answers 500 three times. Then \<^verbatim>\<open>request\<close> fails
  with the error of the third response, whose status code is 500. The trace gains exactly
  three GET requests, with a sleep of 1000 ms between the first and the second and of 2000 ms
  between the second and the third, and nothing after the third.
\<close>

theorem server_errors_exhaust_retries:
  assumes "truthy_str (accessToken (auth c))"
    and "\<not> needsRefresh (auth c) (clock w + int ma + 1000 + int mb + 2000)"
    and "data_replies w =
           Reply ma (Response 500 sma ha ba) # Reply mb (Response 500 smb hb bb) #
           Reply mc (Response 500 smc hc bc) # rest"
  shows "request endpoint 3 c w =
           (Inl (Some \<lparr>message = ''HTTP 500: '' @ smc, statusCode = Some 500, retryAfter = hc\<rparr>),
            c,
            \<lparr>clock = clock w + int ma + 1000 + int mb + 2000 + int mc,
             token_replies = token_replies w,
             data_replies = rest,
             trace = trace w @
               [Fetch (baseUrl @ ''/'' @ endpoint) (accessToken (auth c)), Sleep (Millis 1000),
                Fetch (baseUrl @ ''/'' @ endpoint) (accessToken (auth c)), Sleep (Millis 2000),
                Fetch (baseUrl @ ''/'' @ endpoint) (accessToken (auth c))]\<rparr>)"
proof -
  let ?s = "auth c"
  let ?tok = "accessToken ?s"
  let ?wa = "sleep (Millis 1000) (fetched endpoint ?tok ma
               (Reply mb (Response 500 smb hb bb) # Reply mc (Response 500 smc hc bc) # rest) w)"
  let ?wb = "sleep (Millis 2000) (fetched endpoint ?tok mb
               (Reply mc (Response 500 smc hc bc) # rest) ?wa)"
  have fa: "\<not> needsRefresh ?s (clock w)"
    using assms(2) needsRefresh_mono [of ?s "clock w" "clock w + int ma + 1000 + int mb + 2000"]
    by auto
  have fb: "\<not> needsRefresh ?s (clock ?wa)"
    using assms(2) needsRefresh_mono [of ?s "clock ?wa" "clock w + int ma + 1000 + int mb + 2000"]
    by auto
  have fc: "\<not> needsRefresh ?s (clock ?wb)"
    using assms(2) by (simp add: add.assoc)
  have "request_loop endpoint 3 0 None ?s w =
          request_loop endpoint 3 (Suc 0) (Some (http_error 500 sma ha)) ?s ?wa"
    using request_loop_5xx_retry [where attempt=0 and maxRetries=3 and s="?s" and w=w and ms=ma
        and status=500 and sm=sma and hdr=ha and b=ba and endpoint=endpoint and lastError=None]
      assms(1,3) fa by simp
  also have "\<dots> = request_loop endpoint 3 (Suc (Suc 0)) (Some (http_error 500 smb hb)) ?s ?wb"
    using request_loop_5xx_retry [where attempt="Suc 0" and maxRetries=3 and s="?s" and w="?wa"
        and ms=mb and status=500 and sm=smb and hdr=hb and b=bb and endpoint=endpoint
        and lastError="Some (http_error 500 sma ha)"]
      assms(1) fb by simp
  also have "\<dots> = (Inl (Some (http_error 500 smc hc)), ?s, fetched endpoint ?tok mc rest ?wb)"
    using request_loop_5xx_last [where attempt="Suc (Suc 0)" and maxRetries=3 and s="?s"
        and w="?wb" and ms=mc and status=500 and sm=smc and hdr=hc and b=bc and endpoint=endpoint
        and lastError="Some (http_error 500 smb hb)"]
      assms(1) fc by simp
  finally show ?thesis
    by (simp add: request_def http_error_def show_nat_status fetched_def sleep_def)
qed

theorem server_errors_exhaust_retries_witness:
  "request ''member/info'' 3
     \<lparr>auth = \<lparr>clientId = ''cid'', accessToken = Some ''tok'', refreshToken = Some ''ref'',
              tokenExpiry = Some 900000\<rparr>,
      cache = Map.empty, cacheExpiry = Map.empty\<rparr>
     \<lparr>clock = 1000, token_replies = [],
      data_replies =
        [Reply 5 (Response 500 ''Internal Server Error'' None (Unparsable ''not json'')),
         Reply 6 (Response 500 ''Internal Server Error'' None (Unparsable ''not json'')),
         Reply 7 (Response 500 ''Internal Server Error'' None (Unparsable ''not json''))],
      trace = []\<rparr> =
   (Inl (Some \<lparr>message = ''HTTP 500: Internal Server Error'', statusCode = Some 500,
               retryAfter = None\<rparr>),
    \<lparr>auth = \<lparr>clientId = ''cid'', accessToken = Some ''tok'', refreshToken = Some ''ref'',
              tokenExpiry = Some 900000\<rparr>,
      cache = Map.empty, cacheExpiry = Map.empty\<rparr>,
    \<lparr>clock = 4018, token_replies = [], data_replies = [],
     trace =
       [Fetch ''https://members-ng.iracing.com/data/member/info'' (Some ''tok''),
        Sleep (Millis 1000),
        Fetch ''https://members-ng.iracing.com/data/member/info'' (Some ''tok''),
        Sleep (Millis 2000),
        Fetch ''https://members-ng.iracing.com/data/member/info'' (Some ''tok'')]\<rparr>)"
  using server_errors_exhaust_retries [where endpoint="''member/info''"
      and c="\<lparr>auth = \<lparr>clientId = ''cid'', accessToken = Some ''tok'', refreshToken = Some ''ref'',
              tokenExpiry = Some 900000\<rparr>,
      cache = Map.empty, cacheExpiry = Map.empty\<rparr>"
      and w="\<lparr>clock = 1000, token_replies = [],
      data_replies =
        [Reply 5 (Response 500 ''Internal Server Error'' None (Unparsable ''not json'')),
         Reply 6 (Response 500 ''Internal Server Error'' None (Unparsable ''not json'')),
         Reply 7 (Response 500 ''Internal Server Error'' None (Unparsable ''not json''))],
      trace = []\<rparr>"
      and ma=5 and mb=6 and mc=7 and rest="[]"
      and sma="''Internal Server Error''" and smb="''Internal Server Error''"
      and smc="''Internal Server Error''" and ha=None and hb=None and hc=None
      and ba="Unparsable ''not json''" and bb="Unparsable ''not json''" and bc="Unparsable ''not json''"]
  by (simp add: truthy_str_def needsRefresh_def refreshBuffer_def baseUrl_def)

text \<open>
  Claim C3. For every endpoint \<open>e\<close>: if the cache holds a payload for exactly \<open>e\<close> and the
  clock is strictly before the stored expiry, \<^verbatim>\<open>cachedRequest\<close> returns that payload
  and changes neither the client nor the world (nothing is sent). If there is no entry, or
  the clock has reached its expiry, the call is a call of \<^verbatim>\<open>request\<close> with the budget
  3, whose payload is stored under \<open>e\<close> with the expiry \<open>now + ttl\<close>, \<open>now\<close> read at the
  start of the call. Hence, when a miss is answered by one successful GET that took less than
  \<open>ttl\<close>, a second call right after it returns the same payload and sends nothing, so that
  both calls together sent one GET; and a call made once \<open>ttl\<close> milliseconds have passed
  since the first one sends a second GET and overwrites the entry with its payload and a new
  expiry.
\<close>

theorem cachedRequest_hit_and_miss:
  "(cache c e = Some v \<and> cacheExpiry c e = Some x \<and> clock w < x \<longrightarrow>
      cachedRequest e ttl c w = (Inr v, c, w)) \<and>
   (cache c e = None \<or> cacheExpiry c e = None \<or> (cacheExpiry c e = Some x \<and> x \<le> clock w) \<longrightarrow>
      cachedRequest e ttl c w =
        (case request e 3 c w of
           (Inr d, ca, wa) \<Rightarrow>
             (Inr d,
              ca\<lparr>cache := (cache ca)(e \<mapsto> d),
                 cacheExpiry := (cacheExpiry ca)(e \<mapsto> clock w + ttl)\<rparr>, wa)
         | (Inl err, ca, wa) \<Rightarrow> (Inl err, ca, wa))) \<and>
   ((cache c e = None \<or> cacheExpiry c e = None \<or> (cacheExpiry c e = Some x \<and> x \<le> clock w)) \<and>
    truthy_str (accessToken (auth c)) \<and> \<not> needsRefresh (auth c) (clock w) \<and>
    data_replies w = Reply ms (Response 200 sm hdr (Parsed v)) # rest \<and>
    ca = c\<lparr>cache := (cache c)(e \<mapsto> v), cacheExpiry := (cacheExpiry c)(e \<mapsto> clock w + ttl)\<rparr> \<and>
    wa = fetched e (accessToken (auth c)) ms rest w \<longrightarrow>
      cachedRequest e ttl c w = (Inr v, ca, wa) \<and>
      trace wa = trace w @ [Fetch (baseUrl @ ''/'' @ e) (accessToken (auth c))] \<and>
      (int ms < ttl \<longrightarrow> cachedRequest e ttla ca wa = (Inr v, ca, wa)) \<and>
      (clock w + ttl \<le> clock wb \<and> \<not> needsRefresh (auth c) (clock wb) \<and>
       data_replies wb = Reply msb (Response 200 smb hb (Parsed vb)) # restb \<longrightarrow>
         cachedRequest e ttlb ca wb =
           (Inr vb,
            ca\<lparr>cache := (cache ca)(e \<mapsto> vb),
               cacheExpiry := (cacheExpiry ca)(e \<mapsto> clock wb + ttlb)\<rparr>,
            fetched e (accessToken (auth c)) msb restb wb)))"
proof (intro conjI impI)
  assume "cache c e = Some v \<and> cacheExpiry c e = Some x \<and> clock w < x"
  then show "cachedRequest e ttl c w = (Inr v, c, w)"
    by (simp add: cachedRequest_def cache_hit_Some)
next
  assume "cache c e = None \<or> cacheExpiry c e = None \<or> (cacheExpiry c e = Some x \<and> x \<le> clock w)"
  then have "cache_hit c e (clock w) = None"
    by (auto intro: cache_hit_None)
  then show "cachedRequest e ttl c w =
        (case request e 3 c w of
           (Inr d, ca, wa) \<Rightarrow>
             (Inr d,
              ca\<lparr>cache := (cache ca)(e \<mapsto> d),
                 cacheExpiry := (cacheExpiry ca)(e \<mapsto> clock w + ttl)\<rparr>, wa)
         | (Inl err, ca, wa) \<Rightarrow> (Inl err, ca, wa))"
    by (simp add: cachedRequest_def split: prod.splits sum.splits)
next
  assume h: "(cache c e = None \<or> cacheExpiry c e = None \<or> (cacheExpiry c e = Some x \<and> x \<le> clock w)) \<and>
    truthy_str (accessToken (auth c)) \<and> \<not> needsRefresh (auth c) (clock w) \<and>
    data_replies w = Reply ms (Response 200 sm hdr (Parsed v)) # rest \<and>
    ca = c\<lparr>cache := (cache c)(e \<mapsto> v), cacheExpiry := (cacheExpiry c)(e \<mapsto> clock w + ttl)\<rparr> \<and>
    wa = fetched e (accessToken (auth c)) ms rest w"
  then have miss: "cache c e = None \<or> cacheExpiry c e = None \<or>
           (\<exists>x. cacheExpiry c e = Some x \<and> x \<le> clock w)"
    by auto
  from h have fr: "truthy_str (accessToken (auth c))" "\<not> needsRefresh (auth c) (clock w)"
    and dr: "data_replies w = Reply ms (Response 200 sm hdr (Parsed v)) # rest"
    and ca: "ca = c\<lparr>cache := (cache c)(e \<mapsto> v), cacheExpiry := (cacheExpiry c)(e \<mapsto> clock w + ttl)\<rparr>"
    and wa: "wa = fetched e (accessToken (auth c)) ms rest w"
    by auto
  show first: "cachedRequest e ttl c w = (Inr v, ca, wa)"
    using cachedRequest_miss_ok [OF miss fr dr] by (simp add: ca wa)
  show "trace wa = trace w @ [Fetch (baseUrl @ ''/'' @ e) (accessToken (auth c))]"
    by (simp add: wa)
  { assume "int ms < ttl"
    then have "cache_hit ca e (clock wa) = Some v"
      by (simp add: ca wa cache_hit_def)
    then show "cachedRequest e ttla ca wa = (Inr v, ca, wa)"
      by (simp add: cachedRequest_def) }
  { assume hb: "clock w + ttl \<le> clock wb \<and> \<not> needsRefresh (auth c) (clock wb) \<and>
       data_replies wb = Reply msb (Response 200 smb hb (Parsed vb)) # restb"
    have missb: "cache ca e = None \<or> cacheExpiry ca e = None \<or>
           (\<exists>x. cacheExpiry ca e = Some x \<and> x \<le> clock wb)"
      using hb by (simp add: ca)
    have frb: "truthy_str (accessToken (auth ca))" "\<not> needsRefresh (auth ca) (clock wb)"
      using fr hb by (simp_all add: ca)
    have drb: "data_replies wb = Reply msb (Response 200 smb hb (Parsed vb)) # restb"
      using hb by simp
    have "auth ca = auth c" by (simp add: ca)
    with cachedRequest_miss_ok [OF missb frb drb, of ttlb]
    show "cachedRequest e ttlb ca wb =
           (Inr vb,
            ca\<lparr>cache := (cache ca)(e \<mapsto> vb),
               cacheExpiry := (cacheExpiry ca)(e \<mapsto> clock wb + ttlb)\<rparr>,
            fetched e (accessToken (auth c)) msb restb wb)"
      by simp }
qed

theorem cachedRequest_hit_and_miss_witness:
  "cachedRequest ''car/get'' 3600000
     \<lparr>auth = \<lparr>clientId = ''cid'', accessToken = Some ''tok'', refreshToken = Some ''ref'',
              tokenExpiry = Some 9000000\<rparr>,
      cache = Map.empty, cacheExpiry = Map.empty\<rparr>
     \<lparr>clock = 1000, token_replies = [],
      data_replies = [Reply 5 (Response 200 ''OK'' None (Parsed (JStr ''mx5'')))],
      trace = []\<rparr> =
   (Inr (JStr ''mx5''),
    \<lparr>auth = \<lparr>clientId = ''cid'', accessToken = Some ''tok'', refreshToken = Some ''ref'',
              tokenExpiry = Some 9000000\<rparr>,
      cache = [''car/get'' \<mapsto> JStr ''mx5''], cacheExpiry = [''car/get'' \<mapsto> 3601000]\<rparr>,
    \<lparr>clock = 1005, token_replies = [], data_replies = [],
     trace = [Fetch ''https://members-ng.iracing.com/data/car/get'' (Some ''tok'')]\<rparr>) \<and>
   cachedRequest ''car/get'' 3600000
     \<lparr>auth = \<lparr>clientId = ''cid'', accessToken = Some ''tok'', refreshToken = Some ''ref'',
              tokenExpiry = Some 9000000\<rparr>,
      cache = [''car/get'' \<mapsto> JStr ''mx5''], cacheExpiry = [''car/get'' \<mapsto> 3601000]\<rparr>
     \<lparr>clock = 1005, token_replies = [], data_replies = [],
      trace = [Fetch ''https://members-ng.iracing.com/data/car/get'' (Some ''tok'')]\<rparr> =
   (Inr (JStr ''mx5''),
    \<lparr>auth = \<lparr>clientId = ''cid'', accessToken = Some ''tok'', refreshToken = Some ''ref'',
              tokenExpiry = Some 9000000\<rparr>,
      cache = [''car/get'' \<mapsto> JStr ''mx5''], cacheExpiry = [''car/get'' \<mapsto> 3601000]\<rparr>,
    \<lparr>clock = 1005, token_replies = [], data_replies = [],
     trace = [Fetch ''https://members-ng.iracing.com/data/car/get'' (Some ''tok'')]\<rparr>) \<and>
   cachedRequest ''car/get'' 60000
     \<lparr>auth = \<lparr>clientId = ''cid'', accessToken = Some ''tok'', refreshToken = Some ''ref'',
              tokenExpiry = Some 9000000\<rparr>,
      cache = [''car/get'' \<mapsto> JStr ''mx5''], cacheExpiry = [''car/get'' \<mapsto> 3601000]\<rparr>
     \<lparr>clock = 3601000, token_replies = [],
      data_replies = [Reply 8 (Response 200 ''OK'' None (Parsed (JStr ''mx5 cup'')))],
      trace = [Fetch ''https://members-ng.iracing.com/data/car/get'' (Some ''tok'')]\<rparr> =
   (Inr (JStr ''mx5 cup''),
    \<lparr>auth = \<lparr>clientId = ''cid'', accessToken = Some ''tok'', refreshToken = Some ''ref'',
              tokenExpiry = Some 9000000\<rparr>,
      cache = [''car/get'' \<mapsto> JStr ''mx5 cup''], cacheExpiry = [''car/get'' \<mapsto> 3661000]\<rparr>,
    \<lparr>clock = 3601008, token_replies = [], data_replies = [],
     trace = [Fetch ''https://members-ng.iracing.com/data/car/get'' (Some ''tok''),
              Fetch ''https://members-ng.iracing.com/data/car/get'' (Some ''tok'')]\<rparr>)"
  using cachedRequest_hit_and_miss [where e="''car/get''" and ttl=3600000 and ttla=3600000
      and ttlb=60000 and x=0 and v="JStr ''mx5''" and ms=5 and sm="''OK''" and hdr=None
      and rest="[]" and msb=8 and smb="''OK''" and hb=None and vb="JStr ''mx5 cup''" and restb="[]"
      and c="\<lparr>auth = \<lparr>clientId = ''cid'', accessToken = Some ''tok'', refreshToken = Some ''ref'',
              tokenExpiry = Some 9000000\<rparr>,
      cache = Map.empty, cacheExpiry = Map.empty\<rparr>"
      and w="\<lparr>clock = 1000, token_replies = [],
      data_replies = [Reply 5 (Response 200 ''OK'' None (Parsed (JStr ''mx5'')))],
      trace = []\<rparr>"
      and ca="\<lparr>auth = \<lparr>clientId = ''cid'', accessToken = Some ''tok'', refreshToken = Some ''ref'',
              tokenExpiry = Some 9000000\<rparr>,
      cache = [''car/get'' \<mapsto> JStr ''mx5''], cacheExpiry = [''car/get'' \<mapsto> 3601000]\<rparr>"
      and wa="\<lparr>clock = 1005, token_replies = [], data_replies = [],
     trace = [Fetch ''https://members-ng.iracing.com/data/car/get'' (Some ''tok'')]\<rparr>"
      and wb="\<lparr>clock = 3601000, token_replies = [],
      data_replies = [Reply 8 (Response 200 ''OK'' None (Parsed (JStr ''mx5 cup'')))],
      trace = [Fetch ''https://members-ng.iracing.com/data/car/get'' (Some ''tok'')]\<rparr>",
      THEN conjunct2, THEN conjunct2]
    cachedRequest_hit_and_miss [where e="''car/get''" and ttl=3600000 and x=3601000
      and v="JStr ''mx5''"
      and c="\<lparr>auth = \<lparr>clientId = ''cid'', accessToken = Some ''tok'', refreshToken = Some ''ref'',
              tokenExpiry = Some 9000000\<rparr>,
      cache = [''car/get'' \<mapsto> JStr ''mx5''], cacheExpiry = [''car/get'' \<mapsto> 3601000]\<rparr>"
      and w="\<lparr>clock = 1005, token_replies = [], data_replies = [],
      trace = [Fetch ''https://members-ng.iracing.com/data/car/get'' (Some ''tok'')]\<rparr>",
      THEN conjunct1]
  by (simp add: truthy_str_def needsRefresh_def refreshBuffer_def baseUrl_def fetched_def)




text \<open>
  Claim C5. Without a stored refresh token \<^verbatim>\<open>refreshAccessToken\<close> fails with the
  "No refresh token available" error, before anything is sent and with the manager unchanged.
  With one, every exchange with the token endpoint that does not end in a stored token makes
  it fail with the error of that exchange, and afterwards access token, refresh token and
  expiry are all absent: a transport failure, with "Request failed: "; a body that is not JSON,
  or the body \<^verbatim>\<open>null\<close> with a status outside 200..299, with
  "Failed to parse response: "; the body \<^verbatim>\<open>null\<close> with a 2xx status, with the
  \<^verbatim>\<open>TypeError\<close> of \<^verbatim>\<open>storeTokens\<close>; any other parsed body with a status outside
  200..299, with "HTTP ", the status and the text of the body; and, when the server is gone,
  the transport failure of the connection. None of these errors is the
  "No refresh token available" error.
\<close>

theorem refreshAccessToken_failures:
  "(\<not> truthy_str (refreshToken s) \<longrightarrow>
      refreshAccessToken s w =
        (Inl (Error ''No refresh token available. Please authenticate first.''), s, w)) \<and>
   (refreshToken s = Some rt \<and> rt \<noteq> [] \<and> token_replies w = Reply ms out # rest \<longrightarrow>
      (out = TransportFailure msg \<longrightarrow>
         refreshAccessToken s w =
           (Inl (Error (''Request failed: '' @ msg)),
            s\<lparr>accessToken := None, refreshToken := None, tokenExpiry := None\<rparr>,
            posted (RefreshGrant rt (clientId s)) ms rest w)) \<and>
      (out = Response status sm hdr (Unparsable msg) \<longrightarrow>
         refreshAccessToken s w =
           (Inl (Error (''Failed to parse response: '' @ msg)),
            s\<lparr>accessToken := None, refreshToken := None, tokenExpiry := None\<rparr>,
            posted (RefreshGrant rt (clientId s)) ms rest w)) \<and>
      (out = Response status sm hdr (Parsed JsonNull) \<and> (status < 200 \<or> 300 \<le> status) \<longrightarrow>
         refreshAccessToken s w =
           (Inl (Error (''Failed to parse response: '' @
                        null_read_message ''error_description'')),
            s\<lparr>accessToken := None, refreshToken := None, tokenExpiry := None\<rparr>,
            posted (RefreshGrant rt (clientId s)) ms rest w)) \<and>
      (out = Response status sm hdr (Parsed JsonNull) \<and> 200 \<le> status \<and> status < 300 \<longrightarrow>
         refreshAccessToken s w =
           (Inl (Error (null_read_message ''access_token'')),
            s\<lparr>accessToken := None, refreshToken := None, tokenExpiry := None\<rparr>,
            posted (RefreshGrant rt (clientId s)) ms rest w)) \<and>
      (out = Response status sm hdr (Parsed (JsonValue tj)) \<and>
       (status < 200 \<or> 300 \<le> status) \<longrightarrow>
         refreshAccessToken s w =
           (Inl (Error (''HTTP '' @ show_nat status @ '': '' @ error_text tj)),
            s\<lparr>accessToken := None, refreshToken := None, tokenExpiry := None\<rparr>,
            posted (RefreshGrant rt (clientId s)) ms rest w))) \<and>
   (refreshToken s = Some rt \<and> rt \<noteq> [] \<and> token_replies w = [] \<longrightarrow>
      refreshAccessToken s w =
        (Inl (Error ''Request failed: connect ECONNREFUSED''),
         s\<lparr>accessToken := None, refreshToken := None, tokenExpiry := None\<rparr>,
         w\<lparr>trace := trace w @ [TokenPost tokenEndpoint (RefreshGrant rt (clientId s))]\<rparr>)) \<and>
   ''Request failed: '' @ x \<noteq> ''No refresh token available. Please authenticate first.'' \<and>
   ''Failed to parse response: '' @ y \<noteq>
     ''No refresh token available. Please authenticate first.'' \<and>
   ''HTTP '' @ z \<noteq> ''No refresh token available. Please authenticate first.'' \<and>
   null_read_message p \<noteq> ''No refresh token available. Please authenticate first.''"
proof -
  have none: "\<not> truthy_str (refreshToken s) \<longrightarrow>
      refreshAccessToken s w =
        (Inl (Error ''No refresh token available. Please authenticate first.''), s, w)"
    by (auto simp: refreshAccessToken_def truthy_str_def split: option.splits)
  have gone: "refreshToken s = Some rt \<and> rt \<noteq> [] \<and> token_replies w = [] \<longrightarrow>
      refreshAccessToken s w =
        (Inl (Error ''Request failed: connect ECONNREFUSED''),
         s\<lparr>accessToken := None, refreshToken := None, tokenExpiry := None\<rparr>,
         w\<lparr>trace := trace w @ [TokenPost tokenEndpoint (RefreshGrant rt (clientId s))]\<rparr>)"
    by (simp add: refreshAccessToken_def makeRequest_def token_exchange_def clearTokens_def)
  have distinct:
    "''Request failed: '' @ x \<noteq> ''No refresh token available. Please authenticate first.'' \<and>
     ''Failed to parse response: '' @ y \<noteq>
       ''No refresh token available. Please authenticate first.'' \<and>
     ''HTTP '' @ z \<noteq> ''No refresh token available. Please authenticate first.'' \<and>
     null_read_message p \<noteq> ''No refresh token available. Please authenticate first.''"
    by (simp add: null_read_message_def)
  have runs: "refreshToken s = Some rt \<and> rt \<noteq> [] \<and> token_replies w = Reply ms out # rest \<longrightarrow>
      (out = TransportFailure msg \<longrightarrow>
         refreshAccessToken s w =
           (Inl (Error (''Request failed: '' @ msg)),
            s\<lparr>accessToken := None, refreshToken := None, tokenExpiry := None\<rparr>,
            posted (RefreshGrant rt (clientId s)) ms rest w)) \<and>
      (out = Response status sm hdr (Unparsable msg) \<longrightarrow>
         refreshAccessToken s w =
           (Inl (Error (''Failed to parse response: '' @ msg)),
            s\<lparr>accessToken := None, refreshToken := None, tokenExpiry := None\<rparr>,
            posted (RefreshGrant rt (clientId s)) ms rest w)) \<and>
      (out = Response status sm hdr (Parsed JsonNull) \<and> (status < 200 \<or> 300 \<le> status) \<longrightarrow>
         refreshAccessToken s w =
           (Inl (Error (''Failed to parse response: '' @
                        null_read_message ''error_description'')),
            s\<lparr>accessToken := None, refreshToken := None, tokenExpiry := None\<rparr>,
            posted (RefreshGrant rt (clientId s)) ms rest w)) \<and>
      (out = Response status sm hdr (Parsed JsonNull) \<and> 200 \<le> status \<and> status < 300 \<longrightarrow>
         refreshAccessToken s w =
           (Inl (Error (null_read_message ''access_token'')),
            s\<lparr>accessToken := None, refreshToken := None, tokenExpiry := None\<rparr>,
            posted (RefreshGrant rt (clientId s)) ms rest w)) \<and>
      (out = Response status sm hdr (Parsed (JsonValue tj)) \<and>
       (status < 200 \<or> 300 \<le> status) \<longrightarrow>
         refreshAccessToken s w =
           (Inl (Error (''HTTP '' @ show_nat status @ '': '' @ error_text tj)),
            s\<lparr>accessToken := None, refreshToken := None, tokenExpiry := None\<rparr>,
            posted (RefreshGrant rt (clientId s)) ms rest w))"
  proof
    assume h: "refreshToken s = Some rt \<and> rt \<noteq> [] \<and> token_replies w = Reply ms out # rest"
    then have tr: "token_replies w = Reply ms out # rest" by simp
    have rf: "refreshAccessToken s w =
        (case makeRequest tokenEndpoint (RefreshGrant rt (clientId s)) w of
           (Inr response, w') \<Rightarrow>
             (case storeTokens response (clock w') s of
                Inr s' \<Rightarrow> (Inr response, s', w')
              | Inl err \<Rightarrow> (Inl err, clearTokens s, w'))
         | (Inl err, w') \<Rightarrow> (Inl err, clearTokens s, w'))"
      using h by (simp add: refreshAccessToken_def)
    show "(out = TransportFailure msg \<longrightarrow>
         refreshAccessToken s w =
           (Inl (Error (''Request failed: '' @ msg)),
            s\<lparr>accessToken := None, refreshToken := None, tokenExpiry := None\<rparr>,
            posted (RefreshGrant rt (clientId s)) ms rest w)) \<and>
      (out = Response status sm hdr (Unparsable msg) \<longrightarrow>
         refreshAccessToken s w =
           (Inl (Error (''Failed to parse response: '' @ msg)),
            s\<lparr>accessToken := None, refreshToken := None, tokenExpiry := None\<rparr>,
            posted (RefreshGrant rt (clientId s)) ms rest w)) \<and>
      (out = Response status sm hdr (Parsed JsonNull) \<and> (status < 200 \<or> 300 \<le> status) \<longrightarrow>
         refreshAccessToken s w =
           (Inl (Error (''Failed to parse response: '' @
                        null_read_message ''error_description'')),
            s\<lparr>accessToken := None, refreshToken := None, tokenExpiry := None\<rparr>,
            posted (RefreshGrant rt (clientId s)) ms rest w)) \<and>
      (out = Response status sm hdr (Parsed JsonNull) \<and> 200 \<le> status \<and> status < 300 \<longrightarrow>
         refreshAccessToken s w =
           (Inl (Error (null_read_message ''access_token'')),
            s\<lparr>accessToken := None, refreshToken := None, tokenExpiry := None\<rparr>,
            posted (RefreshGrant rt (clientId s)) ms rest w)) \<and>
      (out = Response status sm hdr (Parsed (JsonValue tj)) \<and>
       (status < 200 \<or> 300 \<le> status) \<longrightarrow>
         refreshAccessToken s w =
           (Inl (Error (''HTTP '' @ show_nat status @ '': '' @ error_text tj)),
            s\<lparr>accessToken := None, refreshToken := None, tokenExpiry := None\<rparr>,
            posted (RefreshGrant rt (clientId s)) ms rest w))"
      unfolding rf makeRequest_reply [OF tr]
      by (auto simp: storeTokens_def clearTokens_def)
  qed
  from none runs gone distinct show ?thesis by blast
qed

theorem refreshAccessToken_failures_witness:
  "refreshAccessToken
     \<lparr>clientId = ''cid'', accessToken = None, refreshToken = None, tokenExpiry = None\<rparr>
     \<lparr>clock = 1000, token_replies = [], data_replies = [], trace = []\<rparr> =
   (Inl (Error ''No refresh token available. Please authenticate first.''),
    \<lparr>clientId = ''cid'', accessToken = None, refreshToken = None, tokenExpiry = None\<rparr>,
    \<lparr>clock = 1000, token_replies = [], data_replies = [], trace = []\<rparr>) \<and>
   refreshAccessToken
     \<lparr>clientId = ''cid'', accessToken = Some ''tok'', refreshToken = Some ''ref'',
      tokenExpiry = Some 900000\<rparr>
     \<lparr>clock = 1000,
      token_replies = [Reply 40 (Response 400 ''Bad Request'' None
         (Parsed (JsonValue \<lparr>access_token = None, refresh_token = None, expires_in = None,
                  error = Some ''invalid_grant'', error_description = None\<rparr>)))],
      data_replies = [], trace = []\<rparr> =
   (Inl (Error ''HTTP 400: invalid_grant''),
    \<lparr>clientId = ''cid'', accessToken = None, refreshToken = None, tokenExpiry = None\<rparr>,
    \<lparr>clock = 1040, token_replies = [], data_replies = [],
     trace = [TokenPost ''https://id.iracing.com/auth/token'' (RefreshGrant ''ref'' ''cid'')]\<rparr>) \<and>
   refreshAccessToken
     \<lparr>clientId = ''cid'', accessToken = Some ''tok'', refreshToken = Some ''ref'',
      tokenExpiry = Some 900000\<rparr>
     \<lparr>clock = 1000,
      token_replies = [Reply 40 (Response 200 ''OK'' None (Parsed JsonNull))],
      data_replies = [], trace = []\<rparr> =
   (Inl (Error (null_read_message ''access_token'')),
    \<lparr>clientId = ''cid'', accessToken = None, refreshToken = None, tokenExpiry = None\<rparr>,
    \<lparr>clock = 1040, token_replies = [], data_replies = [],
     trace = [TokenPost ''https://id.iracing.com/auth/token'' (RefreshGrant ''ref'' ''cid'')]\<rparr>)"
  using refreshAccessToken_failures [where
      s="\<lparr>clientId = ''cid'', accessToken = None, refreshToken = None, tokenExpiry = None\<rparr>"
      and w="\<lparr>clock = 1000, token_replies = [], data_replies = [], trace = []\<rparr>",
      THEN conjunct1]
    refreshAccessToken_failures [where
      s="\<lparr>clientId = ''cid'', accessToken = Some ''tok'', refreshToken = Some ''ref'',
         tokenExpiry = Some 900000\<rparr>"
      and rt="''ref''" and ms=40 and rest="[]" and status=400 and sm="''Bad Request''"
      and hdr=None
      and tj="\<lparr>access_token = None, refresh_token = None, expires_in = None,
                  error = Some ''invalid_grant'', error_description = None\<rparr>"
      and out="Response 400 ''Bad Request'' None
         (Parsed (JsonValue \<lparr>access_token = None, refresh_token = None, expires_in = None,
                  error = Some ''invalid_grant'', error_description = None\<rparr>))"
      and w="\<lparr>clock = 1000,
      token_replies = [Reply 40 (Response 400 ''Bad Request'' None
         (Parsed (JsonValue \<lparr>access_token = None, refresh_token = None, expires_in = None,
                  error = Some ''invalid_grant'', error_description = None\<rparr>)))],
      data_replies = [], trace = []\<rparr>", THEN conjunct2, THEN conjunct1]
    refreshAccessToken_failures [where
      s="\<lparr>clientId = ''cid'', accessToken = Some ''tok'', refreshToken = Some ''ref'',
         tokenExpiry = Some 900000\<rparr>"
      and rt="''ref''" and ms=40 and rest="[]" and status=200 and sm="''OK''" and hdr=None
      and out="Response 200 ''OK'' None (Parsed JsonNull)"
      and w="\<lparr>clock = 1000,
      token_replies = [Reply 40 (Response 200 ''OK'' None (Parsed JsonNull))],
      data_replies = [], trace = []\<rparr>", THEN conjunct2, THEN conjunct1]
  by (simp add: truthy_str_def posted_def error_text_def or_str_def show_nat_status
      tokenEndpoint_def)

text \<open>
  Claim C6. For every endpoint, retry budget and attempt within the budget: when
  \<^verbatim>\<open>getValidToken\<close> fails, the loop of \<^verbatim>\<open>request\<close> ends at once with that
  error. The world is the one \<^verbatim>\<open>getValidToken\<close> left, in which no request to the data
  endpoint and no sleep has been added; the same holds for \<^verbatim>\<open>request\<close> itself when
  the failure is on its first attempt.
\<close>

theorem auth_error_propagates:
  assumes "getValidToken s w = (Inl err, sa, wa)" and "attempt < maxRetries"
  shows "request_loop endpoint maxRetries attempt lastError s w = (Inl (Some err), sa, wa) \<and>
         data_events (trace wa) = data_events (trace w) \<and>
         (attempt = 0 \<and> auth c = s \<longrightarrow>
            request endpoint maxRetries c w = (Inl (Some err), c\<lparr>auth := sa\<rparr>, wa))"
  using assms request_loop_auth_error [OF assms(2,1), where endpoint=endpoint]
    getValidToken_data_events [OF assms(1)]
  by (auto simp: request_def)

theorem auth_error_propagates_witness:
  "request ''member/info'' 3
     \<lparr>auth = \<lparr>clientId = ''cid'', accessToken = None, refreshToken = None, tokenExpiry = None\<rparr>,
      cache = Map.empty, cacheExpiry = Map.empty\<rparr>
     \<lparr>clock = 1000, token_replies = [],
      data_replies = [Reply 5 (Response 200 ''OK'' None (Parsed JNull))], trace = []\<rparr> =
   (Inl (Some (Error ''Not authenticated. Please call authenticate() first.'')),
    \<lparr>auth = \<lparr>clientId = ''cid'', accessToken = None, refreshToken = None, tokenExpiry = None\<rparr>,
      cache = Map.empty, cacheExpiry = Map.empty\<rparr>,
    \<lparr>clock = 1000, token_replies = [],
      data_replies = [Reply 5 (Response 200 ''OK'' None (Parsed JNull))], trace = []\<rparr>)"
  using auth_error_propagates [where attempt=0 and maxRetries=3 and endpoint="''member/info''"
      and lastError=None
      and s="\<lparr>clientId = ''cid'', accessToken = None, refreshToken = None, tokenExpiry = None\<rparr>"
      and sa="\<lparr>clientId = ''cid'', accessToken = None, refreshToken = None, tokenExpiry = None\<rparr>"
      and err="Error ''Not authenticated. Please call authenticate() first.''"
      and w="\<lparr>clock = 1000, token_replies = [],
      data_replies = [Reply 5 (Response 200 ''OK'' None (Parsed JNull))], trace = []\<rparr>"
      and wa="\<lparr>clock = 1000, token_replies = [],
      data_replies = [Reply 5 (Response 200 ''OK'' None (Parsed JNull))], trace = []\<rparr>"
      and c="\<lparr>auth = \<lparr>clientId = ''cid'', accessToken = None, refreshToken = None, tokenExpiry = None\<rparr>,
      cache = Map.empty, cacheExpiry = Map.empty\<rparr>"]
  by (simp add: getValidToken_def truthy_str_def)

text \<open>
  Claim C7. The manager holds a token that needs no refresh and a refresh token; the data
  endpoint answers 401 and then 200 with a payload; the token endpoint answers the refresh
  with 200 and a token that lives longer than the refresh buffer (\<open>expires_in\<close> above 300
  seconds). With a budget of at least 2, \<^verbatim>\<open>request\<close> returns the payload of the 200
  response, and the trace gains exactly: one GET with the old token, one refresh request, one
  GET with the new token. The 401 uses up an attempt of the one counter: with a budget of 1
  the same first response ends, after the refresh, in the 401 error, and the second GET is
  never sent.
\<close>

theorem unauthorized_then_ok:
  assumes "truthy_str (accessToken (auth c))" and "\<not> needsRefresh (auth c) (clock w)"
    and "0 \<le> clock w"
    and "refreshToken (auth c) = Some rt" and "rt \<noteq> []"
    and "data_replies w =
           Reply ma (Response 401 sma ha ba) # Reply mb (Response 200 smb hb (Parsed v)) # rest"
    and "token_replies w = Reply mt (Response 200 smt ht (Parsed (JsonValue tj))) # trest"
    and "truthy_str (access_token tj)" and "expires_in tj = Some n" and "300 < n"
  shows "(2 \<le> maxRetries \<longrightarrow>
           request endpoint maxRetries c w =
             (Inr v,
              c\<lparr>auth := stored tj (clock w + int ma + int mt) (auth c)\<rparr>,
              \<lparr>clock = clock w + int ma + int mt + int mb,
               token_replies = trest, data_replies = rest,
               trace = trace w @
                 [Fetch (baseUrl @ ''/'' @ endpoint) (accessToken (auth c)),
                  TokenPost tokenEndpoint (RefreshGrant rt (clientId (auth c))),
                  Fetch (baseUrl @ ''/'' @ endpoint) (access_token tj)]\<rparr>)) \<and>
         (maxRetries = 1 \<longrightarrow>
           request endpoint maxRetries c w =
             (Inl (Some (http_error 401 sma ha)),
              c\<lparr>auth := stored tj (clock w + int ma + int mt) (auth c)\<rparr>,
              \<lparr>clock = clock w + int ma + int mt,
               token_replies = trest,
               data_replies = Reply mb (Response 200 smb hb (Parsed v)) # rest,
               trace = trace w @
                 [Fetch (baseUrl @ ''/'' @ endpoint) (accessToken (auth c)),
                  TokenPost tokenEndpoint (RefreshGrant rt (clientId (auth c)))]\<rparr>))"
proof -
  let ?s = "auth c"
  let ?wa = "fetched endpoint (accessToken ?s) ma (Reply mb (Response 200 smb hb (Parsed v)) # rest) w"
  let ?sb = "stored tj (clock w + int ma + int mt) ?s"
  let ?wb = "posted (RefreshGrant rt (clientId ?s)) mt trest ?wa"
  have rf: "refreshAccessToken ?s ?wa = (Inr (JsonValue tj), ?sb, ?wb)"
    using refreshAccessToken_ok [where s="?s" and w="?wa" and rt=rt and ms=mt and status=200
        and sm=smt and hdr=ht and tj=tj and rest=trest] assms(4,5,7)
    by simp
  have step: "0 < maxRetries \<Longrightarrow> request_loop endpoint maxRetries 0 None ?s w =
      request_loop endpoint maxRetries (Suc 0) (Some (http_error 401 sma ha)) ?sb ?wb" for maxRetries
    using request_loop_401 [where attempt=0 and maxRetries=maxRetries and s="?s" and w=w
        and ms=ma and sm=sma and hdr=ha and b=ba and endpoint=endpoint and lastError=None
        and rest="Reply mb (Response 200 smb hb (Parsed v)) # rest"] assms(1,2,6)
    by (simp add: rf)
  have clk: "clock ?wb = clock w + int ma + int mt" by simp
  have nn: "0 \<le> clock w + int ma + int mt" using assms(3) by simp
  have fresh: "truthy_str (accessToken ?sb)" "\<not> needsRefresh ?sb (clock ?wb)"
    unfolding clk by (rule stored_fresh [OF assms(8,9,10) nn])+
  have tok: "accessToken ?sb = access_token tj" by (simp add: stored_def)
  show ?thesis
  proof (intro conjI impI)
    assume m: "2 \<le> maxRetries"
    have "request_loop endpoint maxRetries (Suc 0) (Some (http_error 401 sma ha)) ?sb ?wb =
            (Inr v, ?sb, fetched endpoint (accessToken ?sb) mb rest ?wb)"
      using request_loop_ok [where attempt="Suc 0" and maxRetries=maxRetries and s="?sb"
          and w="?wb" and ms=mb and status=200 and sm=smb and hdr=hb and v=v and rest=rest
          and endpoint=endpoint and lastError="Some (http_error 401 sma ha)"] fresh m
      by simp
    moreover have "fetched endpoint (accessToken ?sb) mb rest ?wb =
        \<lparr>clock = clock w + int ma + int mt + int mb,
         token_replies = trest, data_replies = rest,
         trace = trace w @
           [Fetch (baseUrl @ ''/'' @ endpoint) (accessToken (auth c)),
            TokenPost tokenEndpoint (RefreshGrant rt (clientId (auth c))),
            Fetch (baseUrl @ ''/'' @ endpoint) (access_token tj)]\<rparr>"
      by (rule world_eqI) (simp_all add: tok)
    ultimately show "request endpoint maxRetries c w =
             (Inr v,
              c\<lparr>auth := stored tj (clock w + int ma + int mt) (auth c)\<rparr>,
              \<lparr>clock = clock w + int ma + int mt + int mb,
               token_replies = trest, data_replies = rest,
               trace = trace w @
                 [Fetch (baseUrl @ ''/'' @ endpoint) (accessToken (auth c)),
                  TokenPost tokenEndpoint (RefreshGrant rt (clientId (auth c))),
                  Fetch (baseUrl @ ''/'' @ endpoint) (access_token tj)]\<rparr>)"
      using step [of maxRetries] m by (simp add: request_def)
  next
    assume m: "maxRetries = 1"
    have fin: "request_loop endpoint 1 (Suc 0) (Some (http_error 401 sma ha)) ?sb ?wb =
            (Inl (Some (http_error 401 sma ha)), ?sb, ?wb)"
      by (simp add: request_loop_done)
    have wb: "?wb =
        \<lparr>clock = clock w + int ma + int mt,
         token_replies = trest,
         data_replies = Reply mb (Response 200 smb hb (Parsed v)) # rest,
         trace = trace w @
           [Fetch (baseUrl @ ''/'' @ endpoint) (accessToken (auth c)),
            TokenPost tokenEndpoint (RefreshGrant rt (clientId (auth c)))]\<rparr>"
      by (rule world_eqI) simp_all
    have "request endpoint 1 c w = (Inl (Some (http_error 401 sma ha)), c\<lparr>auth := ?sb\<rparr>, ?wb)"
      using step [of 1] fin by (simp add: request_def)
    then show "request endpoint maxRetries c w =
             (Inl (Some (http_error 401 sma ha)),
              c\<lparr>auth := stored tj (clock w + int ma + int mt) (auth c)\<rparr>,
              \<lparr>clock = clock w + int ma + int mt,
               token_replies = trest,
               data_replies = Reply mb (Response 200 smb hb (Parsed v)) # rest,
               trace = trace w @
                 [Fetch (baseUrl @ ''/'' @ endpoint) (accessToken (auth c)),
                  TokenPost tokenEndpoint (RefreshGrant rt (clientId (auth c)))]\<rparr>)"
      unfolding m by (simp only: wb)
  qed
qed

theorem unauthorized_then_ok_witness:
  "request ''member/info'' 3
     \<lparr>auth = \<lparr>clientId = ''cid'', accessToken = Some ''tok'', refreshToken = Some ''ref'',
              tokenExpiry = Some 900000\<rparr>,
      cache = Map.empty, cacheExpiry = Map.empty\<rparr>
     \<lparr>clock = 1000,
      token_replies = [Reply 40 (Response 200 ''OK'' None
         (Parsed (JsonValue \<lparr>access_token = Some ''tok2'', refresh_token = Some ''ref2'',
                  expires_in = Some 3600, error = None, error_description = None\<rparr>)))],
      data_replies =
        [Reply 5 (Response 401 ''Unauthorized'' None (Unparsable '''')),
         Reply 6 (Response 200 ''OK'' None (Parsed (JStr ''payload'')))],
      trace = []\<rparr> =
   (Inr (JStr ''payload''),
    \<lparr>auth = \<lparr>clientId = ''cid'', accessToken = Some ''tok2'', refreshToken = Some ''ref2'',
              tokenExpiry = Some 3601045\<rparr>,
      cache = Map.empty, cacheExpiry = Map.empty\<rparr>,
    \<lparr>clock = 1051, token_replies = [], data_replies = [],
     trace =
       [Fetch ''https://members-ng.iracing.com/data/member/info'' (Some ''tok''),
        TokenPost ''https://id.iracing.com/auth/token'' (RefreshGrant ''ref'' ''cid''),
        Fetch ''https://members-ng.iracing.com/data/member/info'' (Some ''tok2'')]\<rparr>)"
  using unauthorized_then_ok [where endpoint="''member/info''" and maxRetries=3
      and c="\<lparr>auth = \<lparr>clientId = ''cid'', accessToken = Some ''tok'', refreshToken = Some ''ref'',
              tokenExpiry = Some 900000\<rparr>,
      cache = Map.empty, cacheExpiry = Map.empty\<rparr>"
      and w="\<lparr>clock = 1000,
      token_replies = [Reply 40 (Response 200 ''OK'' None
         (Parsed (JsonValue \<lparr>access_token = Some ''tok2'', refresh_token = Some ''ref2'',
                  expires_in = Some 3600, error = None, error_description = None\<rparr>)))],
      data_replies =
        [Reply 5 (Response 401 ''Unauthorized'' None (Unparsable '''')),
         Reply 6 (Response 200 ''OK'' None (Parsed (JStr ''payload'')))],
      trace = []\<rparr>"
      and rt="''ref''" and ma=5 and mb=6 and mt=40 and rest="[]" and trest="[]"
      and sma="''Unauthorized''" and ha=None and ba="Unparsable ''''"
      and smb="''OK''" and hb=None and v="JStr ''payload''"
      and smt="''OK''" and ht=None and n=3600
      and tj="\<lparr>access_token = Some ''tok2'', refresh_token = Some ''ref2'',
                  expires_in = Some 3600, error = None, error_description = None\<rparr>"]
  by (simp add: truthy_str_def needsRefresh_def refreshBuffer_def baseUrl_def tokenEndpoint_def
      stored_def)




text \<open>
  Claim C9. Whenever \<^verbatim>\<open>cachedRequest\<close> fails, both maps of the cache are what they
  were before the call: no entry is created, and an entry already there, expired or not, keeps
  its payload and its expiry.
\<close>

theorem cachedRequest_failure_frame:
  "cachedRequest endpoint ttl c w = (Inl err, c', w') \<Longrightarrow>
   cache c' = cache c \<and> cacheExpiry c' = cacheExpiry c"
  by (auto simp: cachedRequest_def Let_def
      split: option.splits prod.splits sum.splits dest: request_cache_frame)

theorem cachedRequest_failure_frame_witness:
  "\<exists>err c' w'.
     cachedRequest ''car/get'' 3600000
       \<lparr>auth = \<lparr>clientId = ''cid'', accessToken = Some ''tok'', refreshToken = Some ''ref'',
                tokenExpiry = Some 900000\<rparr>,
        cache = [''car/get'' \<mapsto> JStr ''old''], cacheExpiry = [''car/get'' \<mapsto> 500]\<rparr>
       \<lparr>clock = 1000, token_replies = [],
        data_replies = [Reply 5 (Response 404 ''Not Found'' None (Unparsable ''''))],
        trace = []\<rparr> = (Inl err, c', w') \<and>
     trace w' = [Fetch ''https://members-ng.iracing.com/data/car/get'' (Some ''tok'')] \<and>
     cache c' ''car/get'' = Some (JStr ''old'') \<and> cacheExpiry c' ''car/get'' = Some 500"
proof -
  let ?c = "\<lparr>auth = \<lparr>clientId = ''cid'', accessToken = Some ''tok'', refreshToken = Some ''ref'',
                tokenExpiry = Some 900000\<rparr>,
        cache = [''car/get'' \<mapsto> JStr ''old''], cacheExpiry = [''car/get'' \<mapsto> 500]\<rparr>"
  let ?w = "\<lparr>clock = 1000, token_replies = [],
        data_replies = [Reply 5 (Response 404 ''Not Found'' None (Unparsable ''''))],
        trace = []\<rparr>"
  have rl: "request_loop ''car/get'' 3 0 None (auth ?c) ?w =
      (Inl (Some (http_error 404 ''Not Found'' None)), auth ?c,
       fetched ''car/get'' (Some ''tok'') 5 [] ?w)"
    using request_loop_other_error [where attempt=0 and maxRetries=3 and s="auth ?c" and w="?w"
        and ms=5 and status=404 and sm="''Not Found''" and hdr=None and b="Unparsable ''''"
        and rest="[]" and endpoint="''car/get''" and lastError=None]
    by (simp add: truthy_str_def needsRefresh_def refreshBuffer_def)
  have ev: "cachedRequest ''car/get'' 3600000 ?c ?w =
      (Inl (Some (http_error 404 ''Not Found'' None)), ?c,
       fetched ''car/get'' (Some ''tok'') 5 [] ?w)"
    using rl by (simp add: cachedRequest_def cache_hit_def request_def)
  from cachedRequest_failure_frame [OF ev] ev show ?thesis
    by (simp add: baseUrl_def)
qed




end
